theory Spec2Isabelle
  imports Main
begin

section \<open>Data model\<close>

text \<open>
  The types of \<^verbatim>\<open>types/uniform-api.ts\<close>. An optional field
  (\<^verbatim>\<open>picture?\<close>) is an \<open>option\<close>. A field name that two interfaces
  share carries a prefix in all but one of them, and \<^verbatim>\<open>type\<close> is
  \<open>mtype\<close>.
\<close>

datatype UniformPermission =
    OPT_CREATE_ENRICHMENTS | OPT_CREATE_INTENTS | OPT_CREATE_QUIRKS | OPT_CREATE_SIGNALS
  | OPT_CREATE_TESTS | OPT_DELETE_ENRICHMENTS | OPT_DELETE_INTENTS | OPT_DELETE_QUIRKS
  | OPT_DELETE_SIGNALS | OPT_DELETE_TESTS | OPT_PUB | OPT_PUBLISH | OPT_READ
  | OPT_WRITE_ENRICHMENTS | OPT_WRITE_INTENTS | OPT_WRITE_QUIRKS | OPT_WRITE_SIGNALS
  | OPT_WRITE_TESTS | PRM_SCHEMA | PROJECT | RDT_ADVANCED | RDT_CREATE | RDT_DELETE
  | RDT_UPDATE | UPM_CREATE | UPM_DATACONN | UPM_DATATYPE | UPM_DELETE | UPM_PUB
  | UPM_PUBLISH | UPM_READ | UPM_RELEASE_CREATE | UPM_RELEASE_DELETE | UPM_RELEASE_LAUNCH
  | UPM_RELEASE_UPDATE | UPM_SCHEMA | UPM_WRITE | UTM_PUB | UTM_WRITE

datatype MemberType = TypeMember | TypeApiKey

record ProjectRoles =
  roles :: "string list"
  customPermissions :: "UniformPermission list option"
  pr_name :: "string option"

record Member =
  subject :: string
  name :: string
  email :: string
  picture :: "string option"
  isTeamAdmin :: bool
  projects :: "(string \<times> ProjectRoles) list"
  mtype :: MemberType
  memberSince :: string

record ProjectInvite =
  projectId :: string
  useCustom :: "bool option"
  pi_roles :: "string list"
  permissions :: "UniformPermission list option"

record InviteMemberRequest =
  inv_projects :: "ProjectInvite list"
  inv_isAdmin :: bool
  inv_email :: string
  inv_teamId :: string
  sendEmail :: bool
  inv_name :: "string option"

record UpdateMemberRequest =
  identity_subject :: string
  upd_teamId :: string
  upd_name :: "string option"
  upd_isAdmin :: "bool option"
  upd_projects :: "ProjectInvite list option"

record DeleteMemberRequest =
  del_teamId :: string
  del_subject :: string

record 'a ApiResponse =
  data :: 'a
  status :: int
  statusText :: string

record TeamConfig =
  teamId :: string
  apiKey :: string

record BackupOptions =
  enabled :: bool
  path :: string

text \<open>\<^verbatim>\<open>MigrationOptions\<close> and \<^verbatim>\<open>MigrationResult\<close> of
  \<^verbatim>\<open>migration-service.ts\<close>; \<^verbatim>\<open>ignoredEmails?\<close> and
  \<^verbatim>\<open>backupPath?\<close> are optional fields.\<close>

record MigrationOptions =
  markObsolete :: bool
  deleteMembers :: bool
  dryRun :: bool
  backup :: BackupOptions
  ignoredEmails :: "string list option"

record MigrationResult =
  res_teamId :: string
  membersFound :: nat
  membersMarkedObsolete :: nat
  membersDeleted :: nat
  invitationsSent :: nat
  skippedMembers :: nat
  backupCreated :: bool
  backupPath :: "string option"
  errors :: "string list"

text \<open>The object \<^verbatim>\<open>{ success, path?, error? }\<close> that
  \<^verbatim>\<open>backupMembers\<close> returns, and the object that
  \<^verbatim>\<open>restoreFromBackup\<close> returns.\<close>

record BackupResult =
  bk_success :: bool
  bk_path :: "string option"
  bk_error :: "string option"

record RestoreResult =
  success :: bool
  membersRestored :: nat
  restoreErrors :: "string list"

section \<open>The outside world\<close>

text \<open>
  Every call that leaves the process is written to a log, oldest first. The log is the
  only clock of the model: what the network, the file system and the system time answer
  may depend on everything that was called before.
\<close>

datatype call =
    GetMembers string string
  | InviteMember InviteMemberRequest string
  | UpdateMember UpdateMemberRequest string
  | DeleteMember DeleteMemberRequest string
  | BackupMembers string "Member list"

text \<open>
  What an axios request does: it resolves with a response (data, status, statusText), it
  rejects with an error that carries a response, or it rejects with an error that carries
  none; the last one is a fault with a message.
\<close>

datatype 'a axios_outcome =
    Fulfilled 'a int string
  | RejectedWithResponse "string option" int string
  | RejectedNoResponse string

datatype fs_op = Mkdir string | WriteFile string | ReadFile string

text \<open>
  The environment is everything the code calls and does not define: the four HTTP verbs of
  the axios instance, the faults of the file system, the clock, the \<^verbatim>\<open>path\<close>
  module, the JSON codec restricted to member lists (\<open>Inl\<close> is the message of the
  SyntaxError that \<^verbatim>\<open>JSON.parse\<close> raises; a document that is not a list of
  members counts as one that does not parse) and
  \<^verbatim>\<open>String.prototype.toLowerCase\<close>, whose case mapping covers every cased
  letter of Unicode and is not fixed here.
\<close>

record env =
  http_get :: "call list \<Rightarrow> string \<Rightarrow> string \<Rightarrow> Member list axios_outcome"
  http_post :: "call list \<Rightarrow> InviteMemberRequest \<Rightarrow> string \<Rightarrow> string axios_outcome"
  http_patch :: "call list \<Rightarrow> UpdateMemberRequest \<Rightarrow> string \<Rightarrow> string axios_outcome"
  http_delete :: "call list \<Rightarrow> DeleteMemberRequest \<Rightarrow> string \<Rightarrow> string axios_outcome"
  fs_fault :: "call list \<Rightarrow> fs_op \<Rightarrow> string option"
  toISOString_now :: "call list \<Rightarrow> string"
  path_resolve :: "string \<Rightarrow> string"
  path_join :: "string \<Rightarrow> string \<Rightarrow> string"
  json_stringify :: "Member list \<Rightarrow> string"
  json_parse :: "string \<Rightarrow> string + Member list"
  toLowerCase :: "string \<Rightarrow> string"

record world =
  calls :: "call list"
  files :: "string \<rightharpoonup> string"
  dirs :: "string list"

definition existsSync :: "world \<Rightarrow> string \<Rightarrow> bool" where
  "existsSync w p = (p \<in> set (dirs w) \<or> files w p \<noteq> None)"

definition mkdirSync :: "env \<Rightarrow> string \<Rightarrow> world \<Rightarrow> string option \<times> world" where
  "mkdirSync e p w =
     (case fs_fault e (calls w) (Mkdir p) of
        Some msg \<Rightarrow> (Some msg, w)
      | None \<Rightarrow> (None, w\<lparr>dirs := p # dirs w\<rparr>))"

definition writeFileSync :: "env \<Rightarrow> string \<Rightarrow> string \<Rightarrow> world \<Rightarrow> string option \<times> world" where
  "writeFileSync e p content w =
     (case fs_fault e (calls w) (WriteFile p) of
        Some msg \<Rightarrow> (Some msg, w)
      | None \<Rightarrow> (None, w\<lparr>files := (files w)(p \<mapsto> content)\<rparr>))"

definition readFileSync :: "env \<Rightarrow> string \<Rightarrow> world \<Rightarrow> string + string" where
  "readFileSync e p w =
     (case fs_fault e (calls w) (ReadFile p) of
        Some msg \<Rightarrow> Inl msg
      | None \<Rightarrow>
          (case files w p of
             Some content \<Rightarrow> Inr content
           | None \<Rightarrow>
               Inl (if p \<in> set (dirs w) then ''EISDIR: illegal operation on a directory, read''
                    else ''ENOENT: no such file or directory'')))"

section \<open>The transport client (uniform-client.ts)\<close>

definition getMembers ::
  "env \<Rightarrow> string \<Rightarrow> string \<Rightarrow> world \<Rightarrow> (string + Member list ApiResponse) \<times> world" where
  "getMembers e tid key w =
     (let w' = w\<lparr>calls := calls w @ [GetMembers tid key]\<rparr> in
      case http_get e (calls w) tid key of
        Fulfilled d st stt \<Rightarrow> (Inr \<lparr>data = d, status = st, statusText = stt\<rparr>, w')
      | RejectedWithResponse d st stt \<Rightarrow> (Inr \<lparr>data = [], status = st, statusText = stt\<rparr>, w')
      | RejectedNoResponse msg \<Rightarrow> (Inl msg, w'))"

text \<open>The three mutating calls share one shape: a response inside the error becomes a
  result, with \<^verbatim>\<open>data || {}\<close> and \<^verbatim>\<open>statusText || 'Unknown Error'\<close>.\<close>

definition fromAxios :: "string axios_outcome \<Rightarrow> string + string ApiResponse" where
  "fromAxios out =
     (case out of
        Fulfilled d st stt \<Rightarrow> Inr \<lparr>data = d, status = st, statusText = stt\<rparr>
      | RejectedWithResponse d st stt \<Rightarrow>
          Inr \<lparr>data = (case d of None \<Rightarrow> ''{}'' | Some x \<Rightarrow> x), status = st,
               statusText = (if stt = [] then ''Unknown Error'' else stt)\<rparr>
      | RejectedNoResponse msg \<Rightarrow> Inl msg)"

definition inviteMember ::
  "env \<Rightarrow> InviteMemberRequest \<Rightarrow> string \<Rightarrow> world \<Rightarrow> (string + string ApiResponse) \<times> world" where
  "inviteMember e request key w =
     (fromAxios (http_post e (calls w) request key),
      w\<lparr>calls := calls w @ [InviteMember request key]\<rparr>)"

definition updateMember ::
  "env \<Rightarrow> UpdateMemberRequest \<Rightarrow> string \<Rightarrow> world \<Rightarrow> (string + string ApiResponse) \<times> world" where
  "updateMember e request key w =
     (fromAxios (http_patch e (calls w) request key),
      w\<lparr>calls := calls w @ [UpdateMember request key]\<rparr>)"

definition deleteMember_client ::
  "env \<Rightarrow> DeleteMemberRequest \<Rightarrow> string \<Rightarrow> world \<Rightarrow> (string + string ApiResponse) \<times> world" where
  "deleteMember_client e request key w =
     (fromAxios (http_delete e (calls w) request key),
      w\<lparr>calls := calls w @ [DeleteMember request key]\<rparr>)"

definition convertMemberProjectsToInvites :: "Member \<Rightarrow> ProjectInvite list" where
  "convertMemberProjectsToInvites member =
     map (\<lambda>(pid, projectRoles).
            \<lparr>projectId = pid,
             useCustom = Some (case customPermissions projectRoles of
                                 None \<Rightarrow> False | Some ps \<Rightarrow> ps \<noteq> []),
             pi_roles = roles projectRoles,
             permissions = customPermissions projectRoles\<rparr>)
         (projects member)"

section \<open>The migration service (migration-service.ts)\<close>

definition defaultIgnoredEmails :: "string list" where
  "defaultIgnoredEmails = []"

text \<open>The constructor: \<^verbatim>\<open>this.options\<close>.\<close>

definition MigrationService :: "MigrationOptions \<Rightarrow> MigrationOptions" where
  "MigrationService options =
     options\<lparr>ignoredEmails :=
       Some ((case ignoredEmails options of None \<Rightarrow> [] | Some es \<Rightarrow> es) @ defaultIgnoredEmails)\<rparr>"

definition shouldIgnoreMember :: "env \<Rightarrow> MigrationOptions \<Rightarrow> Member \<Rightarrow> bool" where
  "shouldIgnoreMember e opts member =
     (case ignoredEmails opts of
        None \<Rightarrow> False
      | Some es \<Rightarrow> list_ex (\<lambda>ignored. toLowerCase e ignored = toLowerCase e (email member)) es)"

text \<open>\<^verbatim>\<open>backupMembers\<close>: every fault of the file system is caught and becomes
  \<^verbatim>\<open>{ success: false, error }\<close>.\<close>

definition backupMembers ::
  "env \<Rightarrow> MigrationOptions \<Rightarrow> string \<Rightarrow> Member list \<Rightarrow> world \<Rightarrow> BackupResult \<times> world" where
  "backupMembers e opts tid members w =
     (let backupDir = path_resolve e (path (backup opts)) in
      case (if \<not> existsSync w backupDir then mkdirSync e backupDir w else (None, w)) of
        (Some errorMessage, w1) \<Rightarrow>
          (\<lparr>bk_success = False, bk_path = None, bk_error = Some errorMessage\<rparr>, w1)
      | (None, w1) \<Rightarrow>
          (let timestamp = map (\<lambda>c. if c = CHR '':'' \<or> c = CHR ''.'' then CHR ''-'' else c)
                               (toISOString_now e (calls w1));
               backupFileName = ''team-'' @ tid @ ''-backup-'' @ timestamp @ ''.json'';
               backupFilePath = path_join e backupDir backupFileName
           in case writeFileSync e backupFilePath (json_stringify e members) w1 of
                (Some errorMessage, w2) \<Rightarrow>
                  (\<lparr>bk_success = False, bk_path = None, bk_error = Some errorMessage\<rparr>, w2)
              | (None, w2) \<Rightarrow>
                  (\<lparr>bk_success = True, bk_path = Some backupFilePath, bk_error = None\<rparr>, w2)))"

text \<open>
  The three per-member operations mutate \<^verbatim>\<open>result\<close> in place and may raise, so
  each returns the fault (if any), the result as it then stands, and the world.
\<close>

definition markMemberAsObsolete ::
  "env \<Rightarrow> MigrationOptions \<Rightarrow> Member \<Rightarrow> TeamConfig \<Rightarrow> MigrationResult \<Rightarrow> world
     \<Rightarrow> string option \<times> MigrationResult \<times> world" where
  "markMemberAsObsolete e opts member teamConfig result w =
     (let obsoleteName = ''OBSOLETE - '' @ name member in
      if dryRun opts
      then (None, result\<lparr>membersMarkedObsolete := membersMarkedObsolete result + 1\<rparr>, w)
      else
        let updateRequest =
              \<lparr>identity_subject = subject member, upd_teamId = teamId teamConfig,
               upd_name = Some obsoleteName, upd_isAdmin = Some (isTeamAdmin member),
               upd_projects = Some (convertMemberProjectsToInvites member)\<rparr>
        in case updateMember e updateRequest (apiKey teamConfig) w of
             (Inl fault, w') \<Rightarrow> (Some fault, result, w')
           | (Inr response, w') \<Rightarrow>
               if status response \<ge> 200 \<and> status response < 300
               then (None, result\<lparr>membersMarkedObsolete := membersMarkedObsolete result + 1\<rparr>, w')
               else (None,
                     result\<lparr>errors := errors result @
                       [''Failed to mark '' @ email member @ '' as obsolete: '' @ statusText response]\<rparr>,
                     w'))"

definition sendNewInvitation ::
  "env \<Rightarrow> MigrationOptions \<Rightarrow> Member \<Rightarrow> TeamConfig \<Rightarrow> MigrationResult \<Rightarrow> world
     \<Rightarrow> string option \<times> MigrationResult \<times> world" where
  "sendNewInvitation e opts member teamConfig result w =
     (let projs = convertMemberProjectsToInvites member in
      if dryRun opts
      then (None, result\<lparr>invitationsSent := invitationsSent result + 1\<rparr>, w)
      else
        let inviteRequest =
              \<lparr>inv_projects = projs, inv_isAdmin = isTeamAdmin member,
               inv_email = email member, inv_teamId = teamId teamConfig,
               sendEmail = True, inv_name = Some (name member)\<rparr>
        in case inviteMember e inviteRequest (apiKey teamConfig) w of
             (Inl fault, w') \<Rightarrow> (Some fault, result, w')
           | (Inr response, w') \<Rightarrow>
               if status response \<ge> 200 \<and> status response < 300
               then (None, result\<lparr>invitationsSent := invitationsSent result + 1\<rparr>, w')
               else (None,
                     result\<lparr>errors := errors result @
                       [''Failed to send invitation to '' @ email member @ '': '' @ statusText response]\<rparr>,
                     w'))"

definition deleteMember ::
  "env \<Rightarrow> MigrationOptions \<Rightarrow> Member \<Rightarrow> TeamConfig \<Rightarrow> MigrationResult \<Rightarrow> world
     \<Rightarrow> string option \<times> MigrationResult \<times> world" where
  "deleteMember e opts member teamConfig result w =
     (if dryRun opts
      then (None, result\<lparr>membersDeleted := membersDeleted result + 1\<rparr>, w)
      else
        let deleteRequest = \<lparr>del_teamId = teamId teamConfig, del_subject = subject member\<rparr>
        in case deleteMember_client e deleteRequest (apiKey teamConfig) w of
             (Inl fault, w') \<Rightarrow> (Some fault, result, w')
           | (Inr response, w') \<Rightarrow>
               if status response \<ge> 200 \<and> status response < 300
               then (None, result\<lparr>membersDeleted := membersDeleted result + 1\<rparr>, w')
               else (None,
                     result\<lparr>errors := errors result @
                       [''Failed to delete '' @ email member @ '': '' @ statusText response]\<rparr>,
                     w'))"

definition processMember ::
  "env \<Rightarrow> MigrationOptions \<Rightarrow> Member \<Rightarrow> TeamConfig \<Rightarrow> MigrationResult \<Rightarrow> world
     \<Rightarrow> string option \<times> MigrationResult \<times> world" where
  "processMember e opts member teamConfig result w =
     (case (if deleteMembers opts then deleteMember e opts member teamConfig result w
            else if markObsolete opts then markMemberAsObsolete e opts member teamConfig result w
            else (None, result, w)) of
        (Some fault, result1, w1) \<Rightarrow> (Some fault, result1, w1)
      | (None, result1, w1) \<Rightarrow> sendNewInvitation e opts member teamConfig result1 w1)"

text \<open>
  \<^verbatim>\<open>migrateTeam\<close>, lines 89 to 120: the backup gate. The method
  \<^verbatim>\<open>this.backupMembers\<close> is a parameter \<open>save\<close>, whose outcome is a
  returned object (\<open>Inr\<close>) or a raised fault (\<open>Inl\<close>), so that both the
  \<^verbatim>\<open>else\<close> branch and the \<^verbatim>\<open>catch\<close> branch of the source are
  branches of the model. \<open>Inl\<close> of the gate is the early \<^verbatim>\<open>return result\<close>,
  \<open>Inr\<close> goes on to the member loop.
\<close>

definition abortMessage :: string where
  "abortMessage = ''Migration aborted because backup failed and delete members is enabled''"

type_synonym saver = "string \<Rightarrow> Member list \<Rightarrow> world \<Rightarrow> (string + BackupResult) \<times> world"

definition migrateTeam_backup ::
  "saver \<Rightarrow> MigrationOptions \<Rightarrow> TeamConfig \<Rightarrow> Member list \<Rightarrow> MigrationResult \<Rightarrow> world
     \<Rightarrow> (MigrationResult + MigrationResult) \<times> world" where
  "migrateTeam_backup save opts teamConfig members result w =
     (if enabled (backup opts) \<and> length members > 0 then
        (case save (teamId teamConfig) members
                (w\<lparr>calls := calls w @ [BackupMembers (teamId teamConfig) members]\<rparr>) of
           (Inr backupResult, w') \<Rightarrow>
             (let result1 = result\<lparr>backupCreated := bk_success backupResult,
                                   backupPath := bk_path backupResult\<rparr>
              in if bk_success backupResult then (Inr result1, w')
                 else
                   let result2 = result1\<lparr>errors := errors result1 @
                         [''Failed to create backup: '' @
                          (case bk_error backupResult of None \<Rightarrow> ''undefined'' | Some m \<Rightarrow> m)]\<rparr>
                   in if deleteMembers opts \<and> \<not> dryRun opts
                      then (Inl (result2\<lparr>errors := errors result2 @ [abortMessage]\<rparr>), w')
                      else (Inr result2, w'))
         | (Inl errorMessage, w') \<Rightarrow>
             (let result1 = result\<lparr>errors := errors result @
                     [''Error creating backup: '' @ errorMessage]\<rparr>
              in if deleteMembers opts \<and> \<not> dryRun opts
                 then (Inl (result1\<lparr>errors := errors result1 @ [abortMessage]\<rparr>), w')
                 else (Inr result1, w')))
      else (Inr result, w))"

text \<open>\<^verbatim>\<open>migrateTeam\<close>, lines 123 to 138: the member loop.\<close>

fun migrateTeam_loop ::
  "env \<Rightarrow> MigrationOptions \<Rightarrow> TeamConfig \<Rightarrow> Member list \<Rightarrow> MigrationResult \<Rightarrow> world
     \<Rightarrow> MigrationResult \<times> world" where
  "migrateTeam_loop e opts teamConfig [] result w = (result, w)"
| "migrateTeam_loop e opts teamConfig (member # rest) result w =
     (if shouldIgnoreMember e opts member
      then migrateTeam_loop e opts teamConfig rest
             (result\<lparr>skippedMembers := skippedMembers result + 1\<rparr>) w
      else
        (case processMember e opts member teamConfig result w of
           (None, result1, w1) \<Rightarrow> migrateTeam_loop e opts teamConfig rest result1 w1
         | (Some errorMessage, result1, w1) \<Rightarrow>
             migrateTeam_loop e opts teamConfig rest
               (result1\<lparr>errors := errors result1 @
                  [''Error processing member '' @ email member @ '': '' @ errorMessage]\<rparr>) w1))"

definition initialResult :: "string \<Rightarrow> MigrationResult" where
  "initialResult tid =
     \<lparr>res_teamId = tid, membersFound = 0, membersMarkedObsolete = 0, membersDeleted = 0,
      invitationsSent = 0, skippedMembers = 0, backupCreated = False, backupPath = None,
      errors = []\<rparr>"

definition migrateTeam_with ::
  "saver \<Rightarrow> env \<Rightarrow> MigrationOptions \<Rightarrow> TeamConfig \<Rightarrow> world \<Rightarrow> MigrationResult \<times> world" where
  "migrateTeam_with save e opts teamConfig w =
     (let result = initialResult (teamId teamConfig) in
      case getMembers e (teamId teamConfig) (apiKey teamConfig) w of
        (Inl errorMessage, w1) \<Rightarrow>
          (result\<lparr>errors := errors result @
             [''Error migrating team '' @ teamId teamConfig @ '': '' @ errorMessage]\<rparr>, w1)
      | (Inr membersResponse, w1) \<Rightarrow>
          if status membersResponse \<noteq> 200
          then (result\<lparr>errors := errors result @
                  [''Failed to get members: '' @ statusText membersResponse]\<rparr>, w1)
          else
            (let members = data membersResponse;
                 result1 = result\<lparr>membersFound := length members\<rparr>
             in (case migrateTeam_backup save opts teamConfig members result1 w1 of
                   (Inl result2, w2) \<Rightarrow> (result2, w2)
                 | (Inr result2, w2) \<Rightarrow>
                     migrateTeam_loop e opts teamConfig members result2 w2)))"

text \<open>\<^verbatim>\<open>migrateTeam\<close> as the class has it: the saver is the class's own
  \<^verbatim>\<open>backupMembers\<close>, which returns and never raises.\<close>

definition backupMembers_saver :: "env \<Rightarrow> MigrationOptions \<Rightarrow> saver" where
  "backupMembers_saver e opts tid members w =
     (case backupMembers e opts tid members w of (backupResult, w') \<Rightarrow> (Inr backupResult, w'))"

definition migrateTeam ::
  "env \<Rightarrow> MigrationOptions \<Rightarrow> TeamConfig \<Rightarrow> world \<Rightarrow> MigrationResult \<times> world" where
  "migrateTeam e opts teamConfig w =
     migrateTeam_with (backupMembers_saver e opts) e opts teamConfig w"

text \<open>\<^verbatim>\<open>restoreFromBackup\<close>, lines 408 to 434: the loop. Each invitation gets
  a \<^verbatim>\<open>MigrationResult\<close> of its own, which nobody reads afterwards.\<close>

fun restoreFromBackup_loop ::
  "env \<Rightarrow> MigrationOptions \<Rightarrow> TeamConfig \<Rightarrow> Member list \<Rightarrow> RestoreResult \<Rightarrow> world
     \<Rightarrow> RestoreResult \<times> world" where
  "restoreFromBackup_loop e opts teamConfig [] result w = (result, w)"
| "restoreFromBackup_loop e opts teamConfig (member # rest) result w =
     (if shouldIgnoreMember e opts member
      then restoreFromBackup_loop e opts teamConfig rest result w
      else
        (case sendNewInvitation e opts member teamConfig (initialResult (teamId teamConfig)) w of
           (None, discarded, w1) \<Rightarrow>
             restoreFromBackup_loop e opts teamConfig rest
               (result\<lparr>membersRestored := membersRestored result + 1\<rparr>) w1
         | (Some errorMessage, discarded, w1) \<Rightarrow>
             restoreFromBackup_loop e opts teamConfig rest
               (result\<lparr>restoreErrors := restoreErrors result @
                  [''Error restoring member '' @ email member @ '': '' @ errorMessage]\<rparr>) w1))"

definition restoreFromBackup ::
  "env \<Rightarrow> MigrationOptions \<Rightarrow> string \<Rightarrow> TeamConfig \<Rightarrow> world \<Rightarrow> RestoreResult \<times> world" where
  "restoreFromBackup e opts backupFilePath teamConfig w =
     (let result = \<lparr>success = False, membersRestored = 0, restoreErrors = []\<rparr> in
      if \<not> existsSync w backupFilePath
      then (result\<lparr>restoreErrors := restoreErrors result @
              [''Backup file not found: '' @ backupFilePath]\<rparr>, w)
      else
        (case readFileSync e backupFilePath w of
           Inl errorMessage \<Rightarrow>
             (result\<lparr>restoreErrors := restoreErrors result @
                [''Error restoring from backup: '' @ errorMessage]\<rparr>, w)
         | Inr backupData \<Rightarrow>
             (case json_parse e backupData of
                Inl errorMessage \<Rightarrow>
                  (result\<lparr>restoreErrors := restoreErrors result @
                     [''Error restoring from backup: '' @ errorMessage]\<rparr>, w)
              | Inr members \<Rightarrow>
                  if dryRun opts then (result\<lparr>success := True\<rparr>, w)
                  else
                    (case restoreFromBackup_loop e opts teamConfig members result w of
                       (result1, w1) \<Rightarrow>
                         (result1\<lparr>success := membersRestored result1 > 0\<rparr>, w1)))))"

section \<open>Vocabulary of the properties\<close>

text \<open>The requests that the three operations build for a member, as separate functions.\<close>

definition updateRequestOf :: "Member \<Rightarrow> TeamConfig \<Rightarrow> UpdateMemberRequest" where
  "updateRequestOf member teamConfig =
     \<lparr>identity_subject = subject member, upd_teamId = teamId teamConfig,
      upd_name = Some (''OBSOLETE - '' @ name member), upd_isAdmin = Some (isTeamAdmin member),
      upd_projects = Some (convertMemberProjectsToInvites member)\<rparr>"

definition inviteRequestOf :: "Member \<Rightarrow> TeamConfig \<Rightarrow> InviteMemberRequest" where
  "inviteRequestOf member teamConfig =
     \<lparr>inv_projects = convertMemberProjectsToInvites member, inv_isAdmin = isTeamAdmin member,
      inv_email = email member, inv_teamId = teamId teamConfig, sendEmail = True,
      inv_name = Some (name member)\<rparr>"

definition deleteRequestOf :: "Member \<Rightarrow> TeamConfig \<Rightarrow> DeleteMemberRequest" where
  "deleteRequestOf member teamConfig =
     \<lparr>del_teamId = teamId teamConfig, del_subject = subject member\<rparr>"

definition is2xx :: "int \<Rightarrow> bool" where
  "is2xx st = (200 \<le> st \<and> st < 300)"

definition is3xx :: "int \<Rightarrow> bool" where
  "is3xx st = (300 \<le> st \<and> st < 400)"

text \<open>The calls that change or invite a member, and the invite and the update calls
  among them.\<close>

fun isMemberCall :: "call \<Rightarrow> bool" where
  "isMemberCall (InviteMember request key) = True"
| "isMemberCall (UpdateMember request key) = True"
| "isMemberCall (DeleteMember request key) = True"
| "isMemberCall (GetMembers tid key) = False"
| "isMemberCall (BackupMembers tid members) = False"

fun isInviteCall :: "call \<Rightarrow> bool" where
  "isInviteCall (InviteMember request key) = True"
| "isInviteCall c = False"

fun isUpdateCall :: "call \<Rightarrow> bool" where
  "isUpdateCall (UpdateMember request key) = True"
| "isUpdateCall c = False"

text \<open>The calls that a pass over one member can issue: the mutation that the options
  select, then the invitation.\<close>

definition callsOfMember :: "MigrationOptions \<Rightarrow> TeamConfig \<Rightarrow> Member \<Rightarrow> call list" where
  "callsOfMember opts teamConfig member =
     (if deleteMembers opts then [DeleteMember (deleteRequestOf member teamConfig) (apiKey teamConfig)]
      else if markObsolete opts
           then [UpdateMember (updateRequestOf member teamConfig) (apiKey teamConfig)]
           else [])
     @ [InviteMember (inviteRequestOf member teamConfig) (apiKey teamConfig)]"

text \<open>A call that names the member: an invitation to its email, an update or a deletion
  of its subject.\<close>

fun callConcerns :: "Member \<Rightarrow> call \<Rightarrow> bool" where
  "callConcerns member (InviteMember request key) = (inv_email request = email member)"
| "callConcerns member (UpdateMember request key) = (identity_subject request = subject member)"
| "callConcerns member (DeleteMember request key) = (del_subject request = subject member)"
| "callConcerns member (GetMembers tid key) = False"
| "callConcerns member (BackupMembers tid members) = False"

text \<open>The members that a run works on: the data of a fetch that answered with status
  200, and nothing otherwise.\<close>

definition fetchedMembers :: "env \<Rightarrow> TeamConfig \<Rightarrow> world \<Rightarrow> Member list" where
  "fetchedMembers e teamConfig w =
     (case fst (getMembers e (teamId teamConfig) (apiKey teamConfig) w) of
        Inl fault \<Rightarrow> []
      | Inr response \<Rightarrow> if status response = 200 then data response else [])"

text \<open>The run ends at the backup gate: the fetch answered with status 200 and the gate
  returned early.\<close>

definition abortsAtBackupGate :: "env \<Rightarrow> MigrationOptions \<Rightarrow> TeamConfig \<Rightarrow> world \<Rightarrow> bool" where
  "abortsAtBackupGate e opts teamConfig w =
     (case getMembers e (teamId teamConfig) (apiKey teamConfig) w of
        (Inl fault, w1) \<Rightarrow> False
      | (Inr response, w1) \<Rightarrow>
          status response = 200 \<and>
          (case fst (migrateTeam_backup (backupMembers_saver e opts) opts teamConfig
                       (data response)
                       ((initialResult (teamId teamConfig))\<lparr>membersFound := length (data response)\<rparr>)
                       w1) of
             Inl result \<Rightarrow> True
           | Inr result \<Rightarrow> False))"

text \<open>An axios outcome that the service takes for a success, and one that is no fault.\<close>

definition succeeds :: "string axios_outcome \<Rightarrow> bool" where
  "succeeds out = (case fromAxios out of Inl fault \<Rightarrow> False | Inr response \<Rightarrow> is2xx (status response))"

definition responds :: "string axios_outcome \<Rightarrow> bool" where
  "responds out = (case fromAxios out of Inl fault \<Rightarrow> False | Inr response \<Rightarrow> True)"

text \<open>An environment in which every invitation, update and deletion succeeds and the
  file system raises nothing.\<close>

definition allSucceed :: "env \<Rightarrow> bool" where
  "allSucceed e =
     ((\<forall>h request key. succeeds (http_post e h request key)) \<and>
      (\<forall>h request key. succeeds (http_patch e h request key)) \<and>
      (\<forall>h request key. succeeds (http_delete e h request key)) \<and>
      (\<forall>h operation. fs_fault e h operation = None))"

text \<open>What one operation may do to the result and to the world, in either mode.\<close>

definition opFrame ::
  "call \<Rightarrow> MigrationOptions \<Rightarrow> MigrationResult \<Rightarrow> world \<Rightarrow> MigrationResult \<Rightarrow> world \<Rightarrow> bool" where
  "opFrame c opts r w r' w' =
     (calls w' = calls w @ (if dryRun opts then [] else [c]) \<and> files w' = files w \<and>
      dirs w' = dirs w \<and> skippedMembers r' = skippedMembers r \<and>
      membersFound r' = membersFound r)"

section \<open>Sample inputs\<close>

definition alice :: Member where
  "alice = \<lparr>subject = ''s1'', name = ''Alice'', email = ''Alice@x.io'', picture = None,
            isTeamAdmin = True,
            projects = [(''p1'', \<lparr>roles = [''dev''], customPermissions = Some [UPM_READ],
                                  pr_name = None\<rparr>)],
            mtype = TypeMember, memberSince = ''2020''\<rparr>"

definition bob :: Member where
  "bob = \<lparr>subject = ''s2'', name = ''Bob'', email = ''bob@x.io'', picture = None,
          isTeamAdmin = False, projects = [], mtype = TypeMember, memberSince = ''2021''\<rparr>"

text \<open>A case mapping for the samples: the letters A to Z become small, every other
  byte stays.\<close>

definition ascii_toLowerCase_char :: "char \<Rightarrow> char" where
  "ascii_toLowerCase_char c =
     (case map_of (zip ''ABCDEFGHIJKLMNOPQRSTUVWXYZ'' ''abcdefghijklmnopqrstuvwxyz'') c of
        Some l \<Rightarrow> l
      | None \<Rightarrow> c)"

definition ascii_toLowerCase :: "string \<Rightarrow> string" where
  "ascii_toLowerCase s = map ascii_toLowerCase_char s"

definition team1 :: TeamConfig where
  "team1 = \<lparr>teamId = ''t1'', apiKey = ''k1''\<rparr>"

text \<open>A stand-in for the JSON codec on the sample lists: the subjects between brackets.\<close>

definition sample_stringify :: "Member list \<Rightarrow> string" where
  "sample_stringify members = ''['' @ concat (map (\<lambda>m. subject m @ '';'') members) @ '']''"

definition sample_parse :: "string \<Rightarrow> string + Member list" where
  "sample_parse txt =
     (if txt = ''[]'' then Inr []
      else if txt = ''[s1;]'' then Inr [alice]
      else if txt = ''[s1;s2;]'' then Inr [alice, bob]
      else Inl ''Unexpected token'')"

definition env_ok :: env where
  "env_ok =
     \<lparr>http_get = (\<lambda>h tid key. Fulfilled [alice, bob] 200 ''OK''),
      http_post = (\<lambda>h request key. Fulfilled ''{}'' 201 ''Created''),
      http_patch = (\<lambda>h request key. Fulfilled ''{}'' 200 ''OK''),
      http_delete = (\<lambda>h request key. Fulfilled ''{}'' 200 ''OK''),
      fs_fault = (\<lambda>h operation. None),
      toISOString_now = (\<lambda>h. ''2024-01-02T03:04:05.678Z''),
      path_resolve = (\<lambda>p. ''/w/'' @ p),
      path_join = (\<lambda>d f. d @ ''/'' @ f),
      json_stringify = sample_stringify,
      json_parse = sample_parse,
      toLowerCase = ascii_toLowerCase\<rparr>"

definition env_forbidden :: env where
  "env_forbidden = env_ok\<lparr>http_get := (\<lambda>h tid key. RejectedWithResponse None 403 ''Forbidden'')\<rparr>"

definition env_readonly :: env where
  "env_readonly =
     env_ok\<lparr>fs_fault := (\<lambda>h operation. case operation of
                                         WriteFile p \<Rightarrow> Some ''EACCES'' | _ \<Rightarrow> None)\<rparr>"

definition env_not_modified :: env where
  "env_not_modified =
     env_ok\<lparr>http_post := (\<lambda>h request key. RejectedWithResponse None 304 ''Not Modified'')\<rparr>"

definition env_bad_request :: env where
  "env_bad_request =
     env_ok\<lparr>http_post := (\<lambda>h request key. RejectedWithResponse None 400 ''Bad Request'')\<rparr>"

definition env_offline :: env where
  "env_offline =
     env_ok\<lparr>http_post := (\<lambda>h request key. RejectedNoResponse ''connect ECONNREFUSED'')\<rparr>"

definition opts_obsolete :: MigrationOptions where
  "opts_obsolete =
     \<lparr>markObsolete = True, deleteMembers = False, dryRun = False,
      backup = \<lparr>enabled = True, path = ''b''\<rparr>, ignoredEmails = Some []\<rparr>"

definition opts_delete :: MigrationOptions where
  "opts_delete = opts_obsolete\<lparr>markObsolete := True, deleteMembers := True\<rparr>"

definition opts_delete_ignoring :: MigrationOptions where
  "opts_delete_ignoring = opts_delete\<lparr>ignoredEmails := Some [''ALICE@X.IO'']\<rparr>"

definition opts_dry :: MigrationOptions where
  "opts_dry = opts_obsolete\<lparr>dryRun := True, ignoredEmails := Some [''ALICE@X.IO'']\<rparr>"

definition world0 :: world where
  "world0 = \<lparr>calls = [], files = Map.empty, dirs = []\<rparr>"

definition world_with_backup :: "string \<Rightarrow> world" where
  "world_with_backup content = world0\<lparr>files := [''b.json'' \<mapsto> content]\<rparr>"

section \<open>Effects of the operations\<close>

lemmas sample_defs = alice_def bob_def team1_def env_ok_def env_forbidden_def env_readonly_def
  env_not_modified_def env_bad_request_def env_offline_def opts_obsolete_def opts_delete_def opts_delete_ignoring_def
  opts_dry_def world0_def world_with_backup_def sample_stringify_def sample_parse_def

lemma markMemberAsObsolete_dry:
  "dryRun opts \<Longrightarrow> markMemberAsObsolete e opts member tc r w =
     (None, r\<lparr>membersMarkedObsolete := membersMarkedObsolete r + 1\<rparr>, w)"
  by (simp add: markMemberAsObsolete_def)

lemma deleteMember_dry:
  "dryRun opts \<Longrightarrow> deleteMember e opts member tc r w =
     (None, r\<lparr>membersDeleted := membersDeleted r + 1\<rparr>, w)"
  by (simp add: deleteMember_def)

lemma sendNewInvitation_dry:
  "dryRun opts \<Longrightarrow> sendNewInvitation e opts member tc r w =
     (None, r\<lparr>invitationsSent := invitationsSent r + 1\<rparr>, w)"
  by (simp add: sendNewInvitation_def)

lemma markMemberAsObsolete_live:
  assumes "\<not> dryRun opts"
    and "fromAxios (http_patch e (calls w) (updateRequestOf member tc) (apiKey tc)) = Inr response"
  shows "markMemberAsObsolete e opts member tc r w =
           (None,
            (if is2xx (status response)
             then r\<lparr>membersMarkedObsolete := membersMarkedObsolete r + 1\<rparr>
             else r\<lparr>errors := errors r @
                    [''Failed to mark '' @ email member @ '' as obsolete: '' @ statusText response]\<rparr>),
            w\<lparr>calls := calls w @ [UpdateMember (updateRequestOf member tc) (apiKey tc)]\<rparr>)"
  using assms
  by (simp add: markMemberAsObsolete_def updateMember_def updateRequestOf_def is2xx_def Let_def)

lemma markMemberAsObsolete_fault:
  assumes "\<not> dryRun opts"
    and "fromAxios (http_patch e (calls w) (updateRequestOf member tc) (apiKey tc)) = Inl msg"
  shows "markMemberAsObsolete e opts member tc r w =
           (Some msg, r, w\<lparr>calls := calls w @ [UpdateMember (updateRequestOf member tc) (apiKey tc)]\<rparr>)"
  using assms
  by (simp add: markMemberAsObsolete_def updateMember_def updateRequestOf_def Let_def)

lemma deleteMember_live:
  assumes "\<not> dryRun opts"
    and "fromAxios (http_delete e (calls w) (deleteRequestOf member tc) (apiKey tc)) = Inr response"
  shows "deleteMember e opts member tc r w =
           (None,
            (if is2xx (status response)
             then r\<lparr>membersDeleted := membersDeleted r + 1\<rparr>
             else r\<lparr>errors := errors r @
                    [''Failed to delete '' @ email member @ '': '' @ statusText response]\<rparr>),
            w\<lparr>calls := calls w @ [DeleteMember (deleteRequestOf member tc) (apiKey tc)]\<rparr>)"
  using assms
  by (simp add: deleteMember_def deleteMember_client_def deleteRequestOf_def is2xx_def Let_def)

lemma deleteMember_fault:
  assumes "\<not> dryRun opts"
    and "fromAxios (http_delete e (calls w) (deleteRequestOf member tc) (apiKey tc)) = Inl msg"
  shows "deleteMember e opts member tc r w =
           (Some msg, r, w\<lparr>calls := calls w @ [DeleteMember (deleteRequestOf member tc) (apiKey tc)]\<rparr>)"
  using assms
  by (simp add: deleteMember_def deleteMember_client_def deleteRequestOf_def Let_def)

lemma sendNewInvitation_live:
  assumes "\<not> dryRun opts"
    and "fromAxios (http_post e (calls w) (inviteRequestOf member tc) (apiKey tc)) = Inr response"
  shows "sendNewInvitation e opts member tc r w =
           (None,
            (if is2xx (status response)
             then r\<lparr>invitationsSent := invitationsSent r + 1\<rparr>
             else r\<lparr>errors := errors r @
                    [''Failed to send invitation to '' @ email member @ '': '' @ statusText response]\<rparr>),
            w\<lparr>calls := calls w @ [InviteMember (inviteRequestOf member tc) (apiKey tc)]\<rparr>)"
  using assms
  by (simp add: sendNewInvitation_def inviteMember_def inviteRequestOf_def is2xx_def Let_def)

lemma sendNewInvitation_fault:
  assumes "\<not> dryRun opts"
    and "fromAxios (http_post e (calls w) (inviteRequestOf member tc) (apiKey tc)) = Inl msg"
  shows "sendNewInvitation e opts member tc r w =
           (Some msg, r, w\<lparr>calls := calls w @ [InviteMember (inviteRequestOf member tc) (apiKey tc)]\<rparr>)"
  using assms
  by (simp add: sendNewInvitation_def inviteMember_def inviteRequestOf_def Let_def)

lemma markMemberAsObsolete_frame:
  assumes "markMemberAsObsolete e opts member tc r w = (f, r', w')"
  shows "opFrame (UpdateMember (updateRequestOf member tc) (apiKey tc)) opts r w r' w' \<and>
         membersDeleted r' = membersDeleted r \<and> invitationsSent r' = invitationsSent r"
proof (cases "dryRun opts")
  case True
  with assms show ?thesis by (auto simp: markMemberAsObsolete_dry opFrame_def)
next
  case False
  show ?thesis
  proof (cases "fromAxios (http_patch e (calls w) (updateRequestOf member tc) (apiKey tc))")
    case (Inl msg)
    with assms False show ?thesis by (auto simp: markMemberAsObsolete_fault opFrame_def)
  next
    case (Inr response)
    with assms False show ?thesis
      by (auto simp: markMemberAsObsolete_live opFrame_def split: if_splits)
  qed
qed

lemma deleteMember_frame:
  assumes "deleteMember e opts member tc r w = (f, r', w')"
  shows "opFrame (DeleteMember (deleteRequestOf member tc) (apiKey tc)) opts r w r' w' \<and>
         membersMarkedObsolete r' = membersMarkedObsolete r \<and>
         invitationsSent r' = invitationsSent r"
proof (cases "dryRun opts")
  case True
  with assms show ?thesis by (auto simp: deleteMember_dry opFrame_def)
next
  case False
  show ?thesis
  proof (cases "fromAxios (http_delete e (calls w) (deleteRequestOf member tc) (apiKey tc))")
    case (Inl msg)
    with assms False show ?thesis by (auto simp: deleteMember_fault opFrame_def)
  next
    case (Inr response)
    with assms False show ?thesis
      by (auto simp: deleteMember_live opFrame_def split: if_splits)
  qed
qed

lemma sendNewInvitation_frame:
  assumes "sendNewInvitation e opts member tc r w = (f, r', w')"
  shows "opFrame (InviteMember (inviteRequestOf member tc) (apiKey tc)) opts r w r' w' \<and>
         membersMarkedObsolete r' = membersMarkedObsolete r \<and>
         membersDeleted r' = membersDeleted r"
proof (cases "dryRun opts")
  case True
  with assms show ?thesis by (auto simp: sendNewInvitation_dry opFrame_def)
next
  case False
  show ?thesis
  proof (cases "fromAxios (http_post e (calls w) (inviteRequestOf member tc) (apiKey tc))")
    case (Inl msg)
    with assms False show ?thesis by (auto simp: sendNewInvitation_fault opFrame_def)
  next
    case (Inr response)
    with assms False show ?thesis
      by (auto simp: sendNewInvitation_live opFrame_def split: if_splits)
  qed
qed


lemma processMember_frame:
  assumes "processMember e opts member tc r w = (f, r', w')"
  shows "\<exists>cs. calls w' = calls w @ cs \<and> set cs \<subseteq> set (callsOfMember opts tc member) \<and>
              (dryRun opts \<longrightarrow> cs = [])"
    and "files w' = files w" and "dirs w' = dirs w"
    and "skippedMembers r' = skippedMembers r" and "membersFound r' = membersFound r"
    and "deleteMembers opts \<Longrightarrow> membersMarkedObsolete r' = membersMarkedObsolete r"
proof -
  let ?first = "if deleteMembers opts then deleteMember e opts member tc r w
                else if markObsolete opts then markMemberAsObsolete e opts member tc r w
                else (None, r, w)"
  obtain f1 r1 w1 where first: "?first = (f1, r1, w1)" by (cases ?first) auto
  have frame1:
    "calls w1 = calls w @
       (if dryRun opts then []
        else if deleteMembers opts then [DeleteMember (deleteRequestOf member tc) (apiKey tc)]
        else if markObsolete opts then [UpdateMember (updateRequestOf member tc) (apiKey tc)]
        else []) \<and>
     files w1 = files w \<and> dirs w1 = dirs w \<and> skippedMembers r1 = skippedMembers r \<and>
     membersFound r1 = membersFound r \<and>
     (deleteMembers opts \<longrightarrow> membersMarkedObsolete r1 = membersMarkedObsolete r)"
    using first deleteMember_frame [of e opts member tc r w f1 r1 w1]
      markMemberAsObsolete_frame [of e opts member tc r w f1 r1 w1]
    by (auto simp: opFrame_def split: if_splits)
  have all:
    "(\<exists>cs. calls w' = calls w @ cs \<and> set cs \<subseteq> set (callsOfMember opts tc member) \<and>
              (dryRun opts \<longrightarrow> cs = [])) \<and>
     files w' = files w \<and> dirs w' = dirs w \<and> skippedMembers r' = skippedMembers r \<and>
     membersFound r' = membersFound r \<and>
     (deleteMembers opts \<longrightarrow> membersMarkedObsolete r' = membersMarkedObsolete r)"
  proof (cases f1)
    case (Some msg)
    with assms first have "r' = r1" "w' = w1"
      by (simp_all add: processMember_def)
    with frame1 show ?thesis
      by (auto simp: callsOfMember_def)
  next
    case None
    with assms first have "sendNewInvitation e opts member tc r1 w1 = (f, r', w')"
      by (simp add: processMember_def)
    from sendNewInvitation_frame [OF this] frame1 show ?thesis
      by (auto simp: opFrame_def callsOfMember_def)
  qed
  from all show "\<exists>cs. calls w' = calls w @ cs \<and> set cs \<subseteq> set (callsOfMember opts tc member) \<and>
              (dryRun opts \<longrightarrow> cs = [])"
    and "files w' = files w" and "dirs w' = dirs w"
    and "skippedMembers r' = skippedMembers r" and "membersFound r' = membersFound r"
    and "deleteMembers opts \<Longrightarrow> membersMarkedObsolete r' = membersMarkedObsolete r"
    by blast+
qed

text \<open>The member loop.\<close>

lemma migrateTeam_loop_frame:
  assumes "migrateTeam_loop e opts tc members r w = (r', w')"
  shows "(\<exists>cs. calls w' = calls w @ cs \<and>
              (\<forall>c\<in>set cs. \<exists>m\<in>set members. \<not> shouldIgnoreMember e opts m \<and>
                                c \<in> set (callsOfMember opts tc m)) \<and>
              (dryRun opts \<longrightarrow> cs = [])) \<and>
         files w' = files w \<and> dirs w' = dirs w \<and>
         skippedMembers r' = skippedMembers r + length (filter (shouldIgnoreMember e opts) members) \<and>
         membersFound r' = membersFound r \<and>
         (deleteMembers opts \<longrightarrow> membersMarkedObsolete r' = membersMarkedObsolete r)"
  using assms
proof (induction members arbitrary: r w)
  case Nil
  then show ?case by simp
next
  case (Cons member rest)
  show ?case
  proof (cases "shouldIgnoreMember e opts member")
    case True
    with Cons.prems
    have "migrateTeam_loop e opts tc rest (r\<lparr>skippedMembers := skippedMembers r + 1\<rparr>) w = (r', w')"
      by simp
    from Cons.IH [OF this] True show ?thesis
      by auto
  next
    case False
    obtain f r1 w1 where pm: "processMember e opts member tc r w = (f, r1, w1)"
      by (cases "processMember e opts member tc r w") auto
    note fr = processMember_frame [OF pm]
    have "\<exists>r2. migrateTeam_loop e opts tc rest r2 w1 = (r', w') \<and>
               skippedMembers r2 = skippedMembers r1 \<and> membersFound r2 = membersFound r1 \<and>
               membersMarkedObsolete r2 = membersMarkedObsolete r1"
      using Cons.prems False pm by (cases f) auto
    then obtain r2 where rest: "migrateTeam_loop e opts tc rest r2 w1 = (r', w')"
      and r2: "skippedMembers r2 = skippedMembers r1" "membersFound r2 = membersFound r1"
        "membersMarkedObsolete r2 = membersMarkedObsolete r1"
      by blast
    from Cons.IH [OF rest] obtain cs2 where
      cs2: "calls w' = calls w1 @ cs2"
        "\<forall>c\<in>set cs2. \<exists>m\<in>set rest. \<not> shouldIgnoreMember e opts m \<and> c \<in> set (callsOfMember opts tc m)"
        "dryRun opts \<longrightarrow> cs2 = []"
      and others: "files w' = files w1" "dirs w' = dirs w1"
        "skippedMembers r' = skippedMembers r2 + length (filter (shouldIgnoreMember e opts) rest)"
        "membersFound r' = membersFound r2"
        "deleteMembers opts \<longrightarrow> membersMarkedObsolete r' = membersMarkedObsolete r2"
      by blast
    from fr(1) obtain cs1 where
      cs1: "calls w1 = calls w @ cs1" "set cs1 \<subseteq> set (callsOfMember opts tc member)"
        "dryRun opts \<longrightarrow> cs1 = []"
      by blast
    have "calls w' = calls w @ (cs1 @ cs2) \<and>
          (\<forall>c\<in>set (cs1 @ cs2). \<exists>m\<in>set (member # rest). \<not> shouldIgnoreMember e opts m \<and>
                                c \<in> set (callsOfMember opts tc m)) \<and>
          (dryRun opts \<longrightarrow> cs1 @ cs2 = [])"
      using cs1 cs2 False by auto
    then have "\<exists>cs. calls w' = calls w @ cs \<and>
          (\<forall>c\<in>set cs. \<exists>m\<in>set (member # rest). \<not> shouldIgnoreMember e opts m \<and>
                                c \<in> set (callsOfMember opts tc m)) \<and>
          (dryRun opts \<longrightarrow> cs = [])"
      by blast
    with others r2 fr False show ?thesis by simp
  qed
qed

lemma getMembers_world:
  "snd (getMembers e tid key w) = w\<lparr>calls := calls w @ [GetMembers tid key]\<rparr>"
  by (simp add: getMembers_def Let_def split: axios_outcome.splits)

lemma backupMembers_calls:
  "calls (snd (backupMembers e opts tid members w)) = calls w"
  by (simp add: backupMembers_def mkdirSync_def writeFileSync_def Let_def
      split: option.splits prod.splits if_splits)

lemma backupMembers_saver_calls:
  "calls (snd (backupMembers_saver e opts tid members w)) = calls w"
  using backupMembers_calls [of e opts tid members w]
  by (cases "backupMembers e opts tid members w") (simp add: backupMembers_saver_def)

text \<open>The backup gate changes no counter and calls nothing but the saver.\<close>

lemma migrateTeam_backup_frame:
  assumes "migrateTeam_backup save opts tc members r w = (out, w')"
    and "out = Inl r' \<or> out = Inr r'"
  shows "membersFound r' = membersFound r \<and> membersMarkedObsolete r' = membersMarkedObsolete r \<and>
         membersDeleted r' = membersDeleted r \<and> invitationsSent r' = invitationsSent r \<and>
         skippedMembers r' = skippedMembers r"
  using assms
  by (auto simp: migrateTeam_backup_def Let_def split: if_splits prod.splits sum.splits)

lemma migrateTeam_backup_world:
  "snd (migrateTeam_backup save opts tc members r w) =
     (if enabled (backup opts) \<and> members \<noteq> []
      then snd (save (teamId tc) members (w\<lparr>calls := calls w @ [BackupMembers (teamId tc) members]\<rparr>))
      else w)"
  by (auto simp: migrateTeam_backup_def Let_def split: if_splits prod.splits sum.splits)

lemma migrateTeam_backup_dry:
  "dryRun opts \<Longrightarrow> \<exists>r'. fst (migrateTeam_backup save opts tc members r w) = Inr r'"
  by (auto simp: migrateTeam_backup_def Let_def split: if_splits prod.splits sum.splits)

lemmas run_defs = migrateTeam_def migrateTeam_with_def migrateTeam_backup_def
  backupMembers_saver_def backupMembers_def getMembers_def initialResult_def processMember_def
  deleteMember_def sendNewInvitation_def markMemberAsObsolete_def inviteMember_def
  updateMember_def deleteMember_client_def fromAxios_def shouldIgnoreMember_def ascii_toLowerCase_def
  ascii_toLowerCase_char_def existsSync_def mkdirSync_def writeFileSync_def readFileSync_def
  convertMemberProjectsToInvites_def abortMessage_def fetchedMembers_def Let_def

section \<open>Runs of migrateTeam\<close>

lemma migrateTeam_backup_calls:
  "calls (snd (migrateTeam_backup (backupMembers_saver e opts') opts tc members r w)) =
     calls w @ (if enabled (backup opts) \<and> members \<noteq> [] then [BackupMembers (teamId tc) members] else [])"
  by (simp add: migrateTeam_backup_world backupMembers_saver_calls)

text \<open>The three ways in which a run of \<open>migrateTeam\<close> ends.\<close>

lemma migrateTeam_cases:
  obtains
    (no_fetch) msg where
      "fetchedMembers e tc w = []" "\<not> abortsAtBackupGate e opts tc w"
      "migrateTeam e opts tc w =
         ((initialResult (teamId tc))\<lparr>errors := [msg]\<rparr>,
          w\<lparr>calls := calls w @ [GetMembers (teamId tc) (apiKey tc)]\<rparr>)"
  | (aborted) r2 w2 where
      "abortsAtBackupGate e opts tc w" "deleteMembers opts" "\<not> dryRun opts"
      "migrateTeam_backup (backupMembers_saver e opts) opts tc (fetchedMembers e tc w)
         ((initialResult (teamId tc))\<lparr>membersFound := length (fetchedMembers e tc w)\<rparr>)
         (w\<lparr>calls := calls w @ [GetMembers (teamId tc) (apiKey tc)]\<rparr>) = (Inl r2, w2)"
      "migrateTeam e opts tc w = (r2, w2)"
  | (looped) r2 w2 where
      "\<not> abortsAtBackupGate e opts tc w"
      "migrateTeam_backup (backupMembers_saver e opts) opts tc (fetchedMembers e tc w)
         ((initialResult (teamId tc))\<lparr>membersFound := length (fetchedMembers e tc w)\<rparr>)
         (w\<lparr>calls := calls w @ [GetMembers (teamId tc) (apiKey tc)]\<rparr>) = (Inr r2, w2)"
      "migrateTeam e opts tc w = migrateTeam_loop e opts tc (fetchedMembers e tc w) r2 w2"
proof -
  let ?w1 = "w\<lparr>calls := calls w @ [GetMembers (teamId tc) (apiKey tc)]\<rparr>"
  obtain out where g: "getMembers e (teamId tc) (apiKey tc) w = (out, ?w1)"
    using getMembers_world [of e "teamId tc" "apiKey tc" w]
    by (cases "getMembers e (teamId tc) (apiKey tc) w") auto
  show thesis
  proof (cases out)
    case (Inl msg)
    with g show thesis
      by (intro no_fetch [of "''Error migrating team '' @ teamId tc @ '': '' @ msg"])
        (simp_all add: fetchedMembers_def abortsAtBackupGate_def migrateTeam_def
          migrateTeam_with_def initialResult_def)
  next
    case (Inr response)
    show thesis
    proof (cases "status response = 200")
      case False
      with g Inr show thesis
        by (intro no_fetch [of "''Failed to get members: '' @ statusText response"])
          (simp_all add: fetchedMembers_def abortsAtBackupGate_def migrateTeam_def
            migrateTeam_with_def initialResult_def)
    next
      case True
      with g Inr have fm: "fetchedMembers e tc w = data response"
        by (simp add: fetchedMembers_def)
      let ?gate = "migrateTeam_backup (backupMembers_saver e opts) opts tc (data response)
         ((initialResult (teamId tc))\<lparr>membersFound := length (data response)\<rparr>) ?w1"
      obtain gout w2 where gate: "?gate = (gout, w2)"
        by (cases ?gate) auto
      show thesis
      proof (cases gout)
        case (Inl r2)
        have "deleteMembers opts \<and> \<not> dryRun opts"
          using gate Inl
          by (auto simp: migrateTeam_backup_def Let_def split: if_splits prod.splits sum.splits)
        with g Inr True gate Inl fm show thesis
          by (intro aborted [of r2 w2])
            (simp_all add: abortsAtBackupGate_def migrateTeam_def migrateTeam_with_def Let_def)
      next
        case (Inr r2)
        with g \<open>out = Inr response\<close> True gate fm show thesis
          by (intro looped [of r2 w2])
            (simp_all add: abortsAtBackupGate_def migrateTeam_def migrateTeam_with_def Let_def)
      qed
    qed
  qed
qed


lemma migrateTeam_frame:
  "\<exists>bs cs. calls (snd (migrateTeam e opts tc w)) =
             calls w @ GetMembers (teamId tc) (apiKey tc) # bs @ cs \<and>
           (\<forall>c\<in>set bs. \<not> isMemberCall c) \<and>
           (\<forall>c\<in>set cs. \<exists>m\<in>set (fetchedMembers e tc w).
                          \<not> shouldIgnoreMember e opts m \<and> c \<in> set (callsOfMember opts tc m)) \<and>
           (dryRun opts \<longrightarrow> cs = [])"
proof (cases rule: migrateTeam_cases [of e tc w opts])
  case (no_fetch msg)
  then show ?thesis by simp
next
  case (aborted r2 w2)
  let ?bs = "if enabled (backup opts) \<and> fetchedMembers e tc w \<noteq> []
             then [BackupMembers (teamId tc) (fetchedMembers e tc w)] else []"
  have "calls w2 = calls w @ GetMembers (teamId tc) (apiKey tc) # ?bs @ []"
    using migrateTeam_backup_calls [of e opts opts tc "fetchedMembers e tc w"
        "(initialResult (teamId tc))\<lparr>membersFound := length (fetchedMembers e tc w)\<rparr>"
        "w\<lparr>calls := calls w @ [GetMembers (teamId tc) (apiKey tc)]\<rparr>"] aborted(4)
    by simp
  moreover have "\<forall>c\<in>set ?bs. \<not> isMemberCall c" by simp
  ultimately show ?thesis
    using aborted(5) by (intro exI [of _ ?bs] exI [of _ "[]"]) simp
next
  case (looped r2 w2)
  let ?bs = "if enabled (backup opts) \<and> fetchedMembers e tc w \<noteq> []
             then [BackupMembers (teamId tc) (fetchedMembers e tc w)] else []"
  have w2: "calls w2 = calls w @ GetMembers (teamId tc) (apiKey tc) # ?bs"
    using migrateTeam_backup_calls [of e opts opts tc "fetchedMembers e tc w"
        "(initialResult (teamId tc))\<lparr>membersFound := length (fetchedMembers e tc w)\<rparr>"
        "w\<lparr>calls := calls w @ [GetMembers (teamId tc) (apiKey tc)]\<rparr>"] looped(2)
    by simp
  obtain r' w' where loop: "migrateTeam_loop e opts tc (fetchedMembers e tc w) r2 w2 = (r', w')"
    by (cases "migrateTeam_loop e opts tc (fetchedMembers e tc w) r2 w2") auto
  from migrateTeam_loop_frame [OF loop] obtain cs where
    cs: "calls w' = calls w2 @ cs"
      "\<forall>c\<in>set cs. \<exists>m\<in>set (fetchedMembers e tc w).
           \<not> shouldIgnoreMember e opts m \<and> c \<in> set (callsOfMember opts tc m)"
      "dryRun opts \<longrightarrow> cs = []"
    by blast
  have "calls (snd (migrateTeam e opts tc w)) =
          calls w @ GetMembers (teamId tc) (apiKey tc) # ?bs @ cs"
    using looped(3) loop cs(1) w2 by simp
  moreover have "\<forall>c\<in>set ?bs. \<not> isMemberCall c" by simp
  ultimately show ?thesis
    using cs(2,3) by blast
qed

lemma migrateTeam_counters:
  "(deleteMembers opts \<longrightarrow> membersMarkedObsolete (fst (migrateTeam e opts tc w)) = 0) \<and>
   (\<not> abortsAtBackupGate e opts tc w \<longrightarrow>
      skippedMembers (fst (migrateTeam e opts tc w)) =
        length (filter (shouldIgnoreMember e opts) (fetchedMembers e tc w)))"
proof (cases rule: migrateTeam_cases [of e tc w opts])
  case (no_fetch msg)
  then show ?thesis by (simp add: initialResult_def)
next
  case (aborted r2 w2)
  from migrateTeam_backup_frame [OF aborted(4), of r2] aborted(1,5) show ?thesis
    by (simp add: initialResult_def)
next
  case (looped r2 w2)
  obtain r' w' where loop: "migrateTeam_loop e opts tc (fetchedMembers e tc w) r2 w2 = (r', w')"
    by (cases "migrateTeam_loop e opts tc (fetchedMembers e tc w) r2 w2") auto
  from migrateTeam_backup_frame [OF looped(2), of r2] migrateTeam_loop_frame [OF loop]
    looped(3) loop
  show ?thesis
    by (simp add: initialResult_def)
qed

lemma callsOfMember_delete_no_update:
  "deleteMembers opts \<Longrightarrow> c \<in> set (callsOfMember opts tc m) \<Longrightarrow> \<not> isUpdateCall c"
  by (auto simp: callsOfMember_def)

lemma isUpdateCall_isMemberCall: "isUpdateCall c \<Longrightarrow> isMemberCall c"
  by (cases c) auto

lemma shouldIgnoreMember_email:
  "email m = email m' \<Longrightarrow> shouldIgnoreMember e opts m = shouldIgnoreMember e opts m'"
  by (cases "ignoredEmails opts") (simp_all add: shouldIgnoreMember_def)

lemma callsOfMember_concerns:
  assumes "c \<in> set (callsOfMember opts tc m')" and "callConcerns m c"
  shows "email m' = email m \<or> subject m' = subject m"
  using assms
  by (auto simp: callsOfMember_def inviteRequestOf_def updateRequestOf_def deleteRequestOf_def
      split: if_splits)

lemma callsOfMember_invite_concerns:
  assumes "c \<in> set (callsOfMember opts tc m')" and "isInviteCall c" and "callConcerns m c"
  shows "email m' = email m"
  using assms
  by (auto simp: callsOfMember_def inviteRequestOf_def split: if_splits)

lemma callConcerns_isMemberCall: "callConcerns m c \<Longrightarrow> isMemberCall c"
  by (cases c) auto

lemma succeeds_response:
  "succeeds out \<Longrightarrow> \<exists>response. fromAxios out = Inr response \<and> is2xx (status response)"
  by (simp add: succeeds_def split: sum.splits)

text \<open>A pass over one member in which nothing fails: the dry run, or a live run in an
  environment where every call succeeds.\<close>

lemma processMember_all_ok:
  assumes "dryRun opts \<or> allSucceed e"
  shows "\<exists>r' w'. processMember e opts m tc r w = (None, r', w') \<and>
           membersDeleted r' = membersDeleted r + (if deleteMembers opts then 1 else 0) \<and>
           membersMarkedObsolete r' =
             membersMarkedObsolete r + (if \<not> deleteMembers opts \<and> markObsolete opts then 1 else 0) \<and>
           invitationsSent r' = invitationsSent r + 1 \<and> errors r' = errors r"
proof (cases "dryRun opts")
  case True
  then show ?thesis
    by (simp add: processMember_def deleteMember_dry markMemberAsObsolete_dry sendNewInvitation_dry)
next
  case False
  with assms have ok: "allSucceed e" by simp
  let ?first = "if deleteMembers opts then deleteMember e opts m tc r w
                else if markObsolete opts then markMemberAsObsolete e opts m tc r w
                else (None, r, w)"
  have "\<exists>r1 w1. ?first = (None, r1, w1) \<and>
           membersDeleted r1 = membersDeleted r + (if deleteMembers opts then 1 else 0) \<and>
           membersMarkedObsolete r1 =
             membersMarkedObsolete r + (if \<not> deleteMembers opts \<and> markObsolete opts then 1 else 0) \<and>
           invitationsSent r1 = invitationsSent r \<and> errors r1 = errors r"
  proof (cases "deleteMembers opts")
    case True
    from ok have "succeeds (http_delete e (calls w) (deleteRequestOf m tc) (apiKey tc))"
      by (simp add: allSucceed_def)
    from succeeds_response [OF this] obtain response where
      "fromAxios (http_delete e (calls w) (deleteRequestOf m tc) (apiKey tc)) = Inr response"
      "is2xx (status response)" by blast
    with True \<open>\<not> dryRun opts\<close> show ?thesis
      by (simp add: deleteMember_live)
  next
    case nodel: False
    show ?thesis
    proof (cases "markObsolete opts")
      case True
      from ok have "succeeds (http_patch e (calls w) (updateRequestOf m tc) (apiKey tc))"
        by (simp add: allSucceed_def)
      from succeeds_response [OF this] obtain response where
        "fromAxios (http_patch e (calls w) (updateRequestOf m tc) (apiKey tc)) = Inr response"
        "is2xx (status response)" by blast
      with True nodel \<open>\<not> dryRun opts\<close> show ?thesis
        by (simp add: markMemberAsObsolete_live)
    next
      case False
      with nodel show ?thesis by simp
    qed
  qed
  then obtain r1 w1 where first: "?first = (None, r1, w1)"
    and r1: "membersDeleted r1 = membersDeleted r + (if deleteMembers opts then 1 else 0)"
      "membersMarkedObsolete r1 =
         membersMarkedObsolete r + (if \<not> deleteMembers opts \<and> markObsolete opts then 1 else 0)"
      "invitationsSent r1 = invitationsSent r" "errors r1 = errors r"
    by blast
  from ok have "succeeds (http_post e (calls w1) (inviteRequestOf m tc) (apiKey tc))"
    by (simp add: allSucceed_def)
  from succeeds_response [OF this] obtain response where
    "fromAxios (http_post e (calls w1) (inviteRequestOf m tc) (apiKey tc)) = Inr response"
    "is2xx (status response)" by blast
  with \<open>\<not> dryRun opts\<close> have
    "sendNewInvitation e opts m tc r1 w1 =
       (None, r1\<lparr>invitationsSent := invitationsSent r1 + 1\<rparr>,
        w1\<lparr>calls := calls w1 @ [InviteMember (inviteRequestOf m tc) (apiKey tc)]\<rparr>)"
    by (simp add: sendNewInvitation_live)
  with first r1 show ?thesis
    by (simp add: processMember_def)
qed

lemma migrateTeam_loop_all_ok:
  assumes "dryRun opts \<or> allSucceed e"
  shows "membersDeleted (fst (migrateTeam_loop e opts tc ms r w)) =
           membersDeleted r +
           (if deleteMembers opts then length (filter (\<lambda>m. \<not> shouldIgnoreMember e opts m) ms) else 0) \<and>
         membersMarkedObsolete (fst (migrateTeam_loop e opts tc ms r w)) =
           membersMarkedObsolete r +
           (if \<not> deleteMembers opts \<and> markObsolete opts
            then length (filter (\<lambda>m. \<not> shouldIgnoreMember e opts m) ms) else 0) \<and>
         invitationsSent (fst (migrateTeam_loop e opts tc ms r w)) =
           invitationsSent r + length (filter (\<lambda>m. \<not> shouldIgnoreMember e opts m) ms) \<and>
         errors (fst (migrateTeam_loop e opts tc ms r w)) = errors r"
proof (induction ms arbitrary: r w)
  case Nil
  show ?case by simp
next
  case (Cons m rest)
  show ?case
  proof (cases "shouldIgnoreMember e opts m")
    case True
    with Cons.IH [of "r\<lparr>skippedMembers := skippedMembers r + 1\<rparr>" w] show ?thesis
      by simp
  next
    case False
    from processMember_all_ok [OF assms, of m tc r w] obtain r1 w1 where
      pm: "processMember e opts m tc r w = (None, r1, w1)"
      and r1: "membersDeleted r1 = membersDeleted r + (if deleteMembers opts then 1 else 0)"
        "membersMarkedObsolete r1 =
           membersMarkedObsolete r + (if \<not> deleteMembers opts \<and> markObsolete opts then 1 else 0)"
        "invitationsSent r1 = invitationsSent r + 1" "errors r1 = errors r"
      by blast
    from Cons.IH [of r1 w1] pm r1 False show ?thesis
      by simp
  qed
qed

lemma backupMembers_all_ok:
  "allSucceed e \<Longrightarrow> bk_success (fst (backupMembers e opts tid ms w))"
  by (simp add: allSucceed_def backupMembers_def mkdirSync_def writeFileSync_def Let_def)

lemma migrateTeam_backup_all_ok:
  assumes "dryRun opts \<or> allSucceed e"
  shows "\<exists>r'. fst (migrateTeam_backup (backupMembers_saver e opts) opts tc ms r w) = Inr r'"
proof (cases "dryRun opts")
  case True
  then show ?thesis by (rule migrateTeam_backup_dry)
next
  case False
  with assms have ok: "allSucceed e" by simp
  let ?w = "w\<lparr>calls := calls w @ [BackupMembers (teamId tc) ms]\<rparr>"
  obtain b w' where b: "backupMembers e opts (teamId tc) ms ?w = (b, w')"
    by (cases "backupMembers e opts (teamId tc) ms ?w") auto
  with backupMembers_all_ok [OF ok, of opts "teamId tc" ms ?w] have "bk_success b" by simp
  with b show ?thesis
    by (simp add: migrateTeam_backup_def backupMembers_saver_def Let_def)
qed

lemma migrateTeam_all_ok:
  assumes "dryRun opts \<or> allSucceed e"
  shows "membersDeleted (fst (migrateTeam e opts tc w)) =
           (if deleteMembers opts
            then length (filter (\<lambda>m. \<not> shouldIgnoreMember e opts m) (fetchedMembers e tc w)) else 0) \<and>
         membersMarkedObsolete (fst (migrateTeam e opts tc w)) =
           (if \<not> deleteMembers opts \<and> markObsolete opts
            then length (filter (\<lambda>m. \<not> shouldIgnoreMember e opts m) (fetchedMembers e tc w)) else 0) \<and>
         invitationsSent (fst (migrateTeam e opts tc w)) =
           length (filter (\<lambda>m. \<not> shouldIgnoreMember e opts m) (fetchedMembers e tc w))"
proof (cases rule: migrateTeam_cases [of e tc w opts])
  case (no_fetch msg)
  then show ?thesis by (simp add: initialResult_def)
next
  case (aborted r2 w2)
  from migrateTeam_backup_all_ok [OF assms, of tc "fetchedMembers e tc w"
      "(initialResult (teamId tc))\<lparr>membersFound := length (fetchedMembers e tc w)\<rparr>"
      "w\<lparr>calls := calls w @ [GetMembers (teamId tc) (apiKey tc)]\<rparr>"] aborted(4)
  show ?thesis by simp
next
  case (looped r2 w2)
  from migrateTeam_backup_frame [OF looped(2), of r2]
    migrateTeam_loop_all_ok [OF assms, of tc "fetchedMembers e tc w" r2 w2] looped(3)
  show ?thesis
    by (simp add: initialResult_def)
qed

lemma shouldIgnoreMember_live [simp]:
  "shouldIgnoreMember e (opts\<lparr>dryRun := b\<rparr>) = shouldIgnoreMember e opts"
  by (rule ext) (simp add: shouldIgnoreMember_def)

section \<open>Runs of restoreFromBackup\<close>

lemma responds_response:
  "responds out \<Longrightarrow> \<exists>response. fromAxios out = Inr response"
  by (simp add: responds_def split: sum.splits)

lemma succeeds_responds: "succeeds out \<Longrightarrow> responds out"
  by (simp add: succeeds_def responds_def split: sum.splits)

text \<open>The restore loop counts a member as soon as its invitation raises nothing.\<close>

lemma restoreFromBackup_loop_step:
  assumes "\<not> dryRun opts" and "\<not> shouldIgnoreMember e opts m"
    and "fromAxios (http_post e (calls w) (inviteRequestOf m tc) (apiKey tc)) = Inr response"
  shows "restoreFromBackup_loop e opts tc (m # rest) r w =
           restoreFromBackup_loop e opts tc rest (r\<lparr>membersRestored := membersRestored r + 1\<rparr>)
             (w\<lparr>calls := calls w @ [InviteMember (inviteRequestOf m tc) (apiKey tc)]\<rparr>)"
  using assms by (simp add: sendNewInvitation_live)

lemma restoreFromBackup_loop_responds:
  assumes "\<not> dryRun opts" and "\<forall>h request key. responds (http_post e h request key)"
  shows "membersRestored (fst (restoreFromBackup_loop e opts tc ms r w)) =
           membersRestored r + length (filter (\<lambda>m. \<not> shouldIgnoreMember e opts m) ms) \<and>
         restoreErrors (fst (restoreFromBackup_loop e opts tc ms r w)) = restoreErrors r"
proof (induction ms arbitrary: r w)
  case Nil
  show ?case by simp
next
  case (Cons m rest)
  show ?case
  proof (cases "shouldIgnoreMember e opts m")
    case True
    with Cons.IH [of r w] show ?thesis by simp
  next
    case False
    from assms(2) have "responds (http_post e (calls w) (inviteRequestOf m tc) (apiKey tc))"
      by blast
    from responds_response [OF this] obtain response where
      "fromAxios (http_post e (calls w) (inviteRequestOf m tc) (apiKey tc)) = Inr response"
      by blast
    from restoreFromBackup_loop_step [OF assms(1) False this, of rest r]
      Cons.IH [of "r\<lparr>membersRestored := membersRestored r + 1\<rparr>"
        "w\<lparr>calls := calls w @ [InviteMember (inviteRequestOf m tc) (apiKey tc)]\<rparr>"] False
    show ?thesis by simp
  qed
qed

lemma restoreFromBackup_loaded:
  assumes "existsSync w p" and "readFileSync e p w = Inr txt" and "json_parse e txt = Inr ms"
  shows "restoreFromBackup e opts p tc w =
           (if dryRun opts then (\<lparr>success = True, membersRestored = 0, restoreErrors = []\<rparr>, w)
            else (case restoreFromBackup_loop e opts tc ms
                         \<lparr>success = False, membersRestored = 0, restoreErrors = []\<rparr> w of
                    (result1, w1) \<Rightarrow> (result1\<lparr>success := membersRestored result1 > 0\<rparr>, w1)))"
  using assms by (simp add: restoreFromBackup_def Let_def)

lemma restoreFromBackup_live_flag:
  assumes "\<not> dryRun opts"
  shows "success (fst (restoreFromBackup e opts p tc w)) =
           (0 < membersRestored (fst (restoreFromBackup e opts p tc w)))"
  using assms
  by (simp add: restoreFromBackup_def Let_def split: sum.splits prod.splits)

lemma backupMembers_written:
  assumes "backupMembers e opts tid ms w = (b, w1)" and "bk_path b = Some p"
  shows "bk_success b \<and> files w1 p = Some (json_stringify e ms) \<and> calls w1 = calls w"
  using assms
  by (auto simp: backupMembers_def mkdirSync_def writeFileSync_def Let_def
      split: if_splits option.splits prod.splits)

lemma restoreFromBackup_loop_total:
  "membersRestored (fst (restoreFromBackup_loop e opts tc ms r w)) +
     length (restoreErrors (fst (restoreFromBackup_loop e opts tc ms r w))) =
   membersRestored r + length (restoreErrors r) +
     length (filter (\<lambda>m. \<not> shouldIgnoreMember e opts m) ms)"
proof (induction ms arbitrary: r w)
  case Nil
  show ?case by simp
next
  case (Cons m rest)
  show ?case
  proof (cases "shouldIgnoreMember e opts m")
    case True
    with Cons.IH [of r w] show ?thesis by simp
  next
    case False
    obtain f d w1 where s: "sendNewInvitation e opts m tc (initialResult (teamId tc)) w = (f, d, w1)"
      by (cases "sendNewInvitation e opts m tc (initialResult (teamId tc)) w") auto
    show ?thesis
    proof (cases f)
      case None
      with s False Cons.IH [of "r\<lparr>membersRestored := membersRestored r + 1\<rparr>" w1]
      show ?thesis by simp
    next
      case (Some msg)
      with s False
        Cons.IH [of "r\<lparr>restoreErrors := restoreErrors r @
                        [''Error restoring member '' @ email m @ '': '' @ msg]\<rparr>" w1]
      show ?thesis by simp
    qed
  qed
qed

section \<open>The claims\<close>

text \<open>
  C7. If listMembers answers with a status other than 200, \<^verbatim>\<open>migrateTeam\<close>
  appends exactly one error, "Failed to get members: " followed by the status text, and
  returns at once with membersFound = 0: the fetch is the only call in the log, no backup
  is written, no member is changed or invited.
\<close>

theorem fetch_failure_is_terminal:
  assumes "fst (getMembers e (teamId tc) (apiKey tc) w) = Inr response"
    and "status response \<noteq> 200"
  shows "fst (migrateTeam e opts tc w) =
           \<lparr>res_teamId = teamId tc, membersFound = 0, membersMarkedObsolete = 0,
            membersDeleted = 0, invitationsSent = 0, skippedMembers = 0, backupCreated = False,
            backupPath = None, errors = [''Failed to get members: '' @ statusText response]\<rparr> \<and>
         calls (snd (migrateTeam e opts tc w)) = calls w @ [GetMembers (teamId tc) (apiKey tc)] \<and>
         files (snd (migrateTeam e opts tc w)) = files w \<and>
         dirs (snd (migrateTeam e opts tc w)) = dirs w"
proof -
  obtain w1 where g: "getMembers e (teamId tc) (apiKey tc) w = (Inr response, w1)"
    using assms(1) by (cases "getMembers e (teamId tc) (apiKey tc) w") auto
  have w1: "w1 = w\<lparr>calls := calls w @ [GetMembers (teamId tc) (apiKey tc)]\<rparr>"
    using getMembers_world [of e "teamId tc" "apiKey tc" w] g by simp
  have "migrateTeam e opts tc w =
          ((initialResult (teamId tc))\<lparr>errors := errors (initialResult (teamId tc)) @
              [''Failed to get members: '' @ statusText response]\<rparr>, w1)"
    using g assms(2) by (simp add: migrateTeam_def migrateTeam_with_def Let_def)
  then show ?thesis
    by (simp add: w1 initialResult_def)
qed

theorem fetch_failure_is_terminal_witness:
  "fst (getMembers env_forbidden (teamId team1) (apiKey team1) world0) =
     Inr \<lparr>data = [], status = 403, statusText = ''Forbidden''\<rparr> \<and>
   (403::int) \<noteq> 200 \<and>
   fst (migrateTeam env_forbidden opts_delete team1 world0) =
     \<lparr>res_teamId = ''t1'', membersFound = 0, membersMarkedObsolete = 0,
      membersDeleted = 0, invitationsSent = 0, skippedMembers = 0, backupCreated = False,
      backupPath = None, errors = [''Failed to get members: Forbidden'']\<rparr> \<and>
   calls (snd (migrateTeam env_forbidden opts_delete team1 world0)) = [GetMembers ''t1'' ''k1''] \<and>
   files (snd (migrateTeam env_forbidden opts_delete team1 world0)) = Map.empty"
proof -
  have h1: "fst (getMembers env_forbidden (teamId team1) (apiKey team1) world0) =
     Inr \<lparr>data = [], status = 403, statusText = ''Forbidden''\<rparr>"
    by (simp add: getMembers_def env_forbidden_def env_ok_def)
  have h2: "status \<lparr>data = ([]::Member list), status = 403, statusText = ''Forbidden''\<rparr> \<noteq> 200"
    by simp
  from fetch_failure_is_terminal [OF h1 h2, of opts_delete] h1 show ?thesis
    by (simp add: team1_def world0_def)
qed

text \<open>
  C2, amended. In live mode each of the operations mark-obsolete, delete and invite adds
  one to its counter exactly when the status of the response is in the range 200 to 299;
  with any other status, the 3xx ones among them, it appends one error string and leaves
  the counter as it was.
\<close>

theorem live_counters_follow_2xx:
  assumes "\<not> dryRun opts"
  shows "(fromAxios (http_patch e (calls w) (updateRequestOf member tc) (apiKey tc)) = Inr ru \<longrightarrow>
          markMemberAsObsolete e opts member tc r w =
            (None,
             (if 200 \<le> status ru \<and> status ru < 300
              then r\<lparr>membersMarkedObsolete := membersMarkedObsolete r + 1\<rparr>
              else r\<lparr>errors := errors r @
                     [''Failed to mark '' @ email member @ '' as obsolete: '' @ statusText ru]\<rparr>),
             w\<lparr>calls := calls w @ [UpdateMember (updateRequestOf member tc) (apiKey tc)]\<rparr>)) \<and>
         (fromAxios (http_delete e (calls w) (deleteRequestOf member tc) (apiKey tc)) = Inr rd \<longrightarrow>
          deleteMember e opts member tc r w =
            (None,
             (if 200 \<le> status rd \<and> status rd < 300
              then r\<lparr>membersDeleted := membersDeleted r + 1\<rparr>
              else r\<lparr>errors := errors r @
                     [''Failed to delete '' @ email member @ '': '' @ statusText rd]\<rparr>),
             w\<lparr>calls := calls w @ [DeleteMember (deleteRequestOf member tc) (apiKey tc)]\<rparr>)) \<and>
         (fromAxios (http_post e (calls w) (inviteRequestOf member tc) (apiKey tc)) = Inr ri \<longrightarrow>
          sendNewInvitation e opts member tc r w =
            (None,
             (if 200 \<le> status ri \<and> status ri < 300
              then r\<lparr>invitationsSent := invitationsSent r + 1\<rparr>
              else r\<lparr>errors := errors r @
                     [''Failed to send invitation to '' @ email member @ '': '' @ statusText ri]\<rparr>),
             w\<lparr>calls := calls w @ [InviteMember (inviteRequestOf member tc) (apiKey tc)]\<rparr>))"
  using markMemberAsObsolete_live [OF assms, of e w member tc ru r]
    deleteMember_live [OF assms, of e w member tc rd r]
    sendNewInvitation_live [OF assms, of e w member tc ri r]
  by (simp add: is2xx_def)

theorem live_counters_follow_2xx_witness:
  "\<not> dryRun opts_obsolete \<and>
   fromAxios (http_patch env_not_modified (calls world0) (updateRequestOf bob team1) (apiKey team1)) =
     Inr \<lparr>data = ''{}'', status = 200, statusText = ''OK''\<rparr> \<and>
   fromAxios (http_delete env_not_modified (calls world0) (deleteRequestOf bob team1) (apiKey team1)) =
     Inr \<lparr>data = ''{}'', status = 200, statusText = ''OK''\<rparr> \<and>
   fromAxios (http_post env_not_modified (calls world0) (inviteRequestOf bob team1) (apiKey team1)) =
     Inr \<lparr>data = ''{}'', status = 304, statusText = ''Not Modified''\<rparr> \<and>
   fst (snd (markMemberAsObsolete env_not_modified opts_obsolete bob team1 (initialResult ''t1'') world0)) =
     (initialResult ''t1'')\<lparr>membersMarkedObsolete := 1\<rparr> \<and>
   fst (snd (deleteMember env_not_modified opts_obsolete bob team1 (initialResult ''t1'') world0)) =
     (initialResult ''t1'')\<lparr>membersDeleted := 1\<rparr> \<and>
   fst (snd (sendNewInvitation env_not_modified opts_obsolete bob team1 (initialResult ''t1'') world0)) =
     (initialResult ''t1'')\<lparr>errors := [''Failed to send invitation to bob@x.io: Not Modified'']\<rparr>"
proof -
  have h0: "\<not> dryRun opts_obsolete"
    by (simp add: opts_obsolete_def)
  have hu: "fromAxios (http_patch env_not_modified (calls world0) (updateRequestOf bob team1) (apiKey team1)) =
     Inr \<lparr>data = ''{}'', status = 200, statusText = ''OK''\<rparr>"
    by (simp add: fromAxios_def env_not_modified_def env_ok_def)
  have hd: "fromAxios (http_delete env_not_modified (calls world0) (deleteRequestOf bob team1) (apiKey team1)) =
     Inr \<lparr>data = ''{}'', status = 200, statusText = ''OK''\<rparr>"
    by (simp add: fromAxios_def env_not_modified_def env_ok_def)
  have hi: "fromAxios (http_post env_not_modified (calls world0) (inviteRequestOf bob team1) (apiKey team1)) =
     Inr \<lparr>data = ''{}'', status = 304, statusText = ''Not Modified''\<rparr>"
    by (simp add: fromAxios_def env_not_modified_def env_ok_def)
  from live_counters_follow_2xx [OF h0, of env_not_modified world0 bob team1 _ "initialResult ''t1''"]
    h0 hu hd hi
  show ?thesis
    by (simp add: initialResult_def bob_def)
qed

text \<open>
  C2 as stated counts 3xx as success. An invitation answered with status 304 is not
  counted: invitationsSent stays 0 and one error is appended.
\<close>

theorem counter_on_3xx_counterexample:
  "\<not> dryRun opts_obsolete \<and>
   fst (inviteMember env_not_modified (inviteRequestOf bob team1) (apiKey team1) world0) =
     Inr \<lparr>data = ''{}'', status = 304, statusText = ''Not Modified''\<rparr> \<and>
   is3xx 304 \<and>
   invitationsSent (initialResult ''t1'') = 0 \<and>
   invitationsSent
     (fst (snd (sendNewInvitation env_not_modified opts_obsolete bob team1 (initialResult ''t1'') world0))) = 0 \<and>
   errors
     (fst (snd (sendNewInvitation env_not_modified opts_obsolete bob team1 (initialResult ''t1'') world0))) =
     [''Failed to send invitation to bob@x.io: Not Modified'']"
  by (simp add: sendNewInvitation_def inviteMember_def fromAxios_def env_not_modified_def env_ok_def
      opts_obsolete_def initialResult_def bob_def team1_def world0_def is3xx_def inviteRequestOf_def
      Let_def)

text \<open>
  C1. Backup enabled, deleteMembers = true, dryRun = false: if the save of the snapshot
  returns a failure or raises, \<^verbatim>\<open>migrateTeam\<close> returns at once. The result
  ends with the abort error, every counter of a member operation is 0, and the world is
  the one that the save left: when the save itself has called nothing, the log holds no
  delete, update or invite call. The save is attempted only when the fetch answered with
  status 200 and at least one member.
\<close>

theorem failed_backup_aborts_deletion:
  assumes "enabled (backup opts)" and "deleteMembers opts" and "\<not> dryRun opts"
    and "fst (getMembers e (teamId tc) (apiKey tc) w) = Inr response"
    and "status response = 200" and "data response \<noteq> []"
    and "save (teamId tc) (data response)
           (w\<lparr>calls := calls w @ [GetMembers (teamId tc) (apiKey tc),
                                  BackupMembers (teamId tc) (data response)]\<rparr>) = (outcome, w2)"
    and "case outcome of Inl fault \<Rightarrow> True | Inr backupResult \<Rightarrow> \<not> bk_success backupResult"
  shows "migrateTeam_with save e opts tc w =
           (\<lparr>res_teamId = teamId tc, membersFound = length (data response),
             membersMarkedObsolete = 0, membersDeleted = 0, invitationsSent = 0,
             skippedMembers = 0, backupCreated = False,
             backupPath = (case outcome of Inl fault \<Rightarrow> None | Inr backupResult \<Rightarrow> bk_path backupResult),
             errors =
               [case outcome of
                  Inl fault \<Rightarrow> ''Error creating backup: '' @ fault
                | Inr backupResult \<Rightarrow>
                    ''Failed to create backup: '' @
                    (case bk_error backupResult of None \<Rightarrow> ''undefined'' | Some m \<Rightarrow> m),
                abortMessage]\<rparr>,
            w2) \<and>
         (calls w2 = calls w @ [GetMembers (teamId tc) (apiKey tc),
                                BackupMembers (teamId tc) (data response)] \<longrightarrow>
          filter isMemberCall (calls (snd (migrateTeam_with save e opts tc w))) =
            filter isMemberCall (calls w))"
proof -
  let ?w1 = "w\<lparr>calls := calls w @ [GetMembers (teamId tc) (apiKey tc)]\<rparr>"
  have g: "getMembers e (teamId tc) (apiKey tc) w = (Inr response, ?w1)"
    using assms(4) getMembers_world [of e "teamId tc" "apiKey tc" w]
    by (cases "getMembers e (teamId tc) (apiKey tc) w") auto
  have s: "save (teamId tc) (data response)
             (?w1\<lparr>calls := calls ?w1 @ [BackupMembers (teamId tc) (data response)]\<rparr>) = (outcome, w2)"
    using assms(7) by simp
  have run: "migrateTeam_with save e opts tc w =
           (\<lparr>res_teamId = teamId tc, membersFound = length (data response),
             membersMarkedObsolete = 0, membersDeleted = 0, invitationsSent = 0,
             skippedMembers = 0, backupCreated = False,
             backupPath = (case outcome of Inl fault \<Rightarrow> None | Inr backupResult \<Rightarrow> bk_path backupResult),
             errors =
               [case outcome of
                  Inl fault \<Rightarrow> ''Error creating backup: '' @ fault
                | Inr backupResult \<Rightarrow>
                    ''Failed to create backup: '' @
                    (case bk_error backupResult of None \<Rightarrow> ''undefined'' | Some m \<Rightarrow> m),
                abortMessage]\<rparr>,
            w2)"
  proof (cases outcome)
    case (Inl fault)
    with g s assms(1,2,3,5,6) show ?thesis
      by (simp add: migrateTeam_with_def migrateTeam_backup_def initialResult_def Let_def)
  next
    case (Inr backupResult)
    with assms(8) have "\<not> bk_success backupResult" by simp
    with Inr g s assms(1,2,3,5,6) show ?thesis
      by (simp add: migrateTeam_with_def migrateTeam_backup_def initialResult_def Let_def)
  qed
  then show ?thesis by simp
qed

theorem failed_backup_aborts_deletion_witness:
  "enabled (backup opts_delete) \<and> deleteMembers opts_delete \<and> \<not> dryRun opts_delete \<and>
   fst (getMembers env_readonly (teamId team1) (apiKey team1) world0) =
     Inr \<lparr>data = [alice, bob], status = 200, statusText = ''OK''\<rparr> \<and>
   migrateTeam env_readonly opts_delete team1 world0 =
     (\<lparr>res_teamId = ''t1'', membersFound = 2, membersMarkedObsolete = 0, membersDeleted = 0,
       invitationsSent = 0, skippedMembers = 0, backupCreated = False, backupPath = None,
       errors = [''Failed to create backup: EACCES'', abortMessage]\<rparr>,
      \<lparr>calls = [GetMembers ''t1'' ''k1'', BackupMembers ''t1'' [alice, bob]],
       files = Map.empty, dirs = [''/w/b'']\<rparr>) \<and>
   fst (migrateTeam_with (\<lambda>tid members w. (Inl ''disk on fire'', w)) env_ok opts_delete team1 world0) =
     \<lparr>res_teamId = ''t1'', membersFound = 2, membersMarkedObsolete = 0, membersDeleted = 0,
      invitationsSent = 0, skippedMembers = 0, backupCreated = False, backupPath = None,
      errors = [''Error creating backup: disk on fire'', abortMessage]\<rparr> \<and>
   filter isMemberCall
     (calls (snd (migrateTeam_with (\<lambda>tid members w. (Inl ''disk on fire'', w)) env_ok opts_delete
                    team1 world0))) = []"
proof -
  let ?response = "\<lparr>data = [alice, bob], status = 200, statusText = ''OK''\<rparr>"
  let ?w = "world0\<lparr>calls := calls world0 @ [GetMembers (teamId team1) (apiKey team1),
                                  BackupMembers (teamId team1) (data ?response)]\<rparr>"
  have h1: "enabled (backup opts_delete)" and h2: "deleteMembers opts_delete"
    and h3: "\<not> dryRun opts_delete"
    by (simp_all add: opts_delete_def opts_obsolete_def)
  have h4: "fst (getMembers env_readonly (teamId team1) (apiKey team1) world0) = Inr ?response"
    by (simp add: getMembers_def env_readonly_def env_ok_def)
  have h4': "fst (getMembers env_ok (teamId team1) (apiKey team1) world0) = Inr ?response"
    by (simp add: getMembers_def env_ok_def)
  have h5: "status ?response = 200" and h6: "data ?response \<noteq> []"
    by simp_all
  have h7: "backupMembers_saver env_readonly opts_delete (teamId team1) (data ?response) ?w =
              (Inr \<lparr>bk_success = False, bk_path = None, bk_error = Some ''EACCES''\<rparr>,
               ?w\<lparr>dirs := [''/w/b'']\<rparr>)"
    by (simp add: run_defs sample_defs)
  have h8: "case (Inr \<lparr>bk_success = False, bk_path = None, bk_error = Some ''EACCES''\<rparr>
                    :: string + BackupResult) of
              Inl fault \<Rightarrow> True | Inr backupResult \<Rightarrow> \<not> bk_success backupResult"
    by simp
  have k7: "(\<lambda>tid members w. (Inl ''disk on fire'', w)) (teamId team1) (data ?response) ?w =
              (Inl ''disk on fire'' :: string + BackupResult, ?w)"
    by simp
  have k8: "case (Inl ''disk on fire'' :: string + BackupResult) of
              Inl fault \<Rightarrow> True | Inr backupResult \<Rightarrow> \<not> bk_success backupResult"
    by simp
  note returned = failed_backup_aborts_deletion
    [where save = "backupMembers_saver env_readonly opts_delete" and e = env_readonly
       and opts = opts_delete and tc = team1 and w = world0 and response = ?response,
     OF h1 h2 h3 h4 h5 h6 h7 h8]
  note raised = failed_backup_aborts_deletion
    [where save = "\<lambda>tid members w. (Inl ''disk on fire'', w)" and e = env_ok
       and opts = opts_delete and tc = team1 and w = world0 and response = ?response,
     OF h1 h2 h3 h4' h5 h6 k7 k8]
  from returned raised h1 h2 h3 h4
  show ?thesis
    by (simp add: migrateTeam_def team1_def world0_def)
qed

text \<open>
  C6. With deleteMembers = true no member is marked obsolete, whatever markObsolete says:
  the run adds no updateMember call to the log and membersMarkedObsolete stays 0.
\<close>

theorem deletion_overrides_obsolete:
  assumes "deleteMembers opts"
  shows "membersMarkedObsolete (fst (migrateTeam e opts tc w)) = 0 \<and>
         filter isUpdateCall (calls (snd (migrateTeam e opts tc w))) = filter isUpdateCall (calls w)"
proof -
  from migrateTeam_frame [of e opts tc w] obtain bs cs where
    log: "calls (snd (migrateTeam e opts tc w)) =
            calls w @ GetMembers (teamId tc) (apiKey tc) # bs @ cs"
    and bs: "\<forall>c\<in>set bs. \<not> isMemberCall c"
    and cs: "\<forall>c\<in>set cs. \<exists>m\<in>set (fetchedMembers e tc w).
                \<not> shouldIgnoreMember e opts m \<and> c \<in> set (callsOfMember opts tc m)"
    by blast
  have "filter isUpdateCall bs = []"
    using bs isUpdateCall_isMemberCall by (auto simp: filter_empty_conv)
  moreover have "filter isUpdateCall cs = []"
    using cs callsOfMember_delete_no_update [OF assms] by (fastforce simp: filter_empty_conv)
  ultimately have "filter isUpdateCall (calls (snd (migrateTeam e opts tc w))) =
      filter isUpdateCall (calls w)"
    by (simp add: log)
  with migrateTeam_counters [of opts e tc w] assms show ?thesis by simp
qed


theorem deletion_overrides_obsolete_witness:
  "deleteMembers opts_delete \<and> markObsolete opts_delete \<and>
   membersMarkedObsolete (fst (migrateTeam env_ok opts_delete team1 world0)) = 0 \<and>
   membersDeleted (fst (migrateTeam env_ok opts_delete team1 world0)) = 2 \<and>
   filter isUpdateCall (calls (snd (migrateTeam env_ok opts_delete team1 world0))) = []"
proof -
  have h: "deleteMembers opts_delete"
    by (simp add: opts_delete_def opts_obsolete_def)
  have m: "markObsolete opts_delete"
    by (simp add: opts_delete_def opts_obsolete_def)
  have d: "membersDeleted (fst (migrateTeam env_ok opts_delete team1 world0)) = 2"
    by (simp add: run_defs sample_defs)
  from deletion_overrides_obsolete [OF h, of env_ok team1 world0] h m d show ?thesis
    by (simp add: world0_def)
qed

text \<open>
  C5, amended. In every run of \<^verbatim>\<open>migrateTeam\<close> that does not end at the backup
  gate, skippedMembers ends as the number of fetched members whose email equals an entry
  of ignoredEmails up to case, one increment for each. In every run, the aborted ones
  among them, each mutation or invite call is built from a fetched member that is not
  ignored: no invitation goes to the email of an ignored member, and, subjects being
  distinct, no update or deletion names the subject of an ignored member.
\<close>

theorem ignored_members_are_skipped:
  "(\<not> abortsAtBackupGate e opts tc w \<longrightarrow>
      skippedMembers (fst (migrateTeam e opts tc w)) =
        length (filter (shouldIgnoreMember e opts) (fetchedMembers e tc w))) \<and>
   (\<forall>c\<in>set (drop (length (calls w)) (calls (snd (migrateTeam e opts tc w)))).
      isMemberCall c \<longrightarrow>
      (\<exists>m\<in>set (fetchedMembers e tc w).
         \<not> shouldIgnoreMember e opts m \<and> c \<in> set (callsOfMember opts tc m))) \<and>
   (\<forall>m\<in>set (fetchedMembers e tc w). shouldIgnoreMember e opts m \<longrightarrow>
      (\<forall>c\<in>set (drop (length (calls w)) (calls (snd (migrateTeam e opts tc w)))).
         isInviteCall c \<longrightarrow> \<not> callConcerns m c)) \<and>
   (distinct (map subject (fetchedMembers e tc w)) \<longrightarrow>
    (\<forall>m\<in>set (fetchedMembers e tc w). shouldIgnoreMember e opts m \<longrightarrow>
       (\<forall>c\<in>set (drop (length (calls w)) (calls (snd (migrateTeam e opts tc w)))).
          \<not> callConcerns m c)))"
proof -
  let ?new = "drop (length (calls w)) (calls (snd (migrateTeam e opts tc w)))"
  let ?ms = "fetchedMembers e tc w"
  from migrateTeam_frame [of e opts tc w] obtain bs cs where
    log: "calls (snd (migrateTeam e opts tc w)) =
            calls w @ GetMembers (teamId tc) (apiKey tc) # bs @ cs"
    and bs: "\<forall>c\<in>set bs. \<not> isMemberCall c"
    and cs: "\<forall>c\<in>set cs. \<exists>m\<in>set ?ms.
                \<not> shouldIgnoreMember e opts m \<and> c \<in> set (callsOfMember opts tc m)"
    by blast
  have new: "?new = GetMembers (teamId tc) (apiKey tc) # bs @ cs"
    by (simp add: log)
  have built: "\<exists>m\<in>set ?ms. \<not> shouldIgnoreMember e opts m \<and> c \<in> set (callsOfMember opts tc m)"
    if "c \<in> set ?new" "isMemberCall c" for c
    using that bs cs by (auto simp: new)
  have uninvited: "\<not> callConcerns m c"
    if m: "shouldIgnoreMember e opts m" and c: "c \<in> set ?new" "isInviteCall c" for m c
  proof
    assume con: "callConcerns m c"
    from built [OF c(1) callConcerns_isMemberCall [OF con]] obtain m' where
      m': "\<not> shouldIgnoreMember e opts m'" "c \<in> set (callsOfMember opts tc m')"
      by blast
    from callsOfMember_invite_concerns [OF m'(2) c(2) con] have "email m' = email m" .
    from shouldIgnoreMember_email [OF this, of e opts] m m'(1) show False by simp
  qed
  have none: "\<not> callConcerns m c"
    if d: "distinct (map subject ?ms)" and m: "m \<in> set ?ms" "shouldIgnoreMember e opts m"
      and c: "c \<in> set ?new" for m c
  proof
    assume con: "callConcerns m c"
    from built [OF c callConcerns_isMemberCall [OF con]] obtain m' where
      m': "m' \<in> set ?ms" "\<not> shouldIgnoreMember e opts m'" "c \<in> set (callsOfMember opts tc m')"
      by blast
    from callsOfMember_concerns [OF m'(3) con] show False
    proof
      assume "email m' = email m"
      from shouldIgnoreMember_email [OF this, of e opts] m(2) m'(2) show False by simp
    next
      assume "subject m' = subject m"
      with d m(1) m'(1) have "m' = m"
        by (meson distinct_map inj_onD)
      with m(2) m'(2) show False by simp
    qed
  qed
  from migrateTeam_counters [of opts e tc w] built uninvited none show ?thesis
    by blast
qed

theorem ignored_members_are_skipped_witness:
  "\<not> abortsAtBackupGate env_ok opts_delete_ignoring team1 world0 \<and>
   fetchedMembers env_ok team1 world0 = [alice, bob] \<and>
   shouldIgnoreMember env_ok opts_delete_ignoring alice \<and>
   \<not> shouldIgnoreMember env_ok opts_delete_ignoring bob \<and>
   skippedMembers (fst (migrateTeam env_ok opts_delete_ignoring team1 world0)) = 1 \<and>
   filter (callConcerns alice)
     (calls (snd (migrateTeam env_ok opts_delete_ignoring team1 world0))) = [] \<and>
   abortsAtBackupGate env_readonly opts_delete_ignoring team1 world0 \<and>
   fetchedMembers env_readonly team1 world0 = [alice, bob] \<and>
   shouldIgnoreMember env_readonly opts_delete_ignoring alice \<and>
   filter (callConcerns alice)
     (calls (snd (migrateTeam env_readonly opts_delete_ignoring team1 world0))) = []"
proof -
  have h: "\<not> abortsAtBackupGate env_ok opts_delete_ignoring team1 world0"
    and h': "abortsAtBackupGate env_readonly opts_delete_ignoring team1 world0"
    by (simp_all add: abortsAtBackupGate_def run_defs sample_defs)
  have f: "fetchedMembers env_ok team1 world0 = [alice, bob]"
    and f': "fetchedMembers env_readonly team1 world0 = [alice, bob]"
    by (simp_all add: fetchedMembers_def getMembers_def env_ok_def env_readonly_def)
  have a: "shouldIgnoreMember env_ok opts_delete_ignoring alice"
    and b: "\<not> shouldIgnoreMember env_ok opts_delete_ignoring bob"
    and a': "shouldIgnoreMember env_readonly opts_delete_ignoring alice"
    by (simp_all add: run_defs sample_defs)
  have d: "distinct (map subject [alice, bob])"
    by (simp add: alice_def bob_def)
  from ignored_members_are_skipped [of env_ok opts_delete_ignoring team1 world0]
    ignored_members_are_skipped [of env_readonly opts_delete_ignoring team1 world0]
    h h' f f' a b a' d
  show ?thesis
    by (simp add: world0_def filter_empty_conv)
qed

text \<open>
  C5 as stated speaks of every member. In a run that the backup gate aborts the loop is
  never entered: an ignored member was fetched and skippedMembers is 0.
\<close>

theorem skipped_after_abort_counterexample:
  "fetchedMembers env_readonly team1 world0 = [alice, bob] \<and>
   shouldIgnoreMember env_readonly opts_delete_ignoring alice \<and>
   skippedMembers (fst (migrateTeam env_readonly opts_delete_ignoring team1 world0)) = 0"
  by (simp add: run_defs sample_defs)

text \<open>
  C4. A run of \<^verbatim>\<open>migrateTeam\<close> with dryRun = true adds no updateMember,
  deleteMember or inviteMember call to the log, and it counts every fetched member that is
  not ignored: as deleted when deleteMembers is set, as marked obsolete when markObsolete
  is set and deleteMembers is not, and as invited. A live run in an environment where
  every call succeeds ends with the same three counters.
\<close>

theorem dry_run_simulates_full_pass:
  assumes "dryRun opts"
  shows "filter isMemberCall (calls (snd (migrateTeam e opts tc w))) = filter isMemberCall (calls w) \<and>
         membersDeleted (fst (migrateTeam e opts tc w)) =
           (if deleteMembers opts
            then length (filter (\<lambda>m. \<not> shouldIgnoreMember e opts m) (fetchedMembers e tc w)) else 0) \<and>
         membersMarkedObsolete (fst (migrateTeam e opts tc w)) =
           (if \<not> deleteMembers opts \<and> markObsolete opts
            then length (filter (\<lambda>m. \<not> shouldIgnoreMember e opts m) (fetchedMembers e tc w)) else 0) \<and>
         invitationsSent (fst (migrateTeam e opts tc w)) =
           length (filter (\<lambda>m. \<not> shouldIgnoreMember e opts m) (fetchedMembers e tc w)) \<and>
         (allSucceed e \<longrightarrow>
            membersDeleted (fst (migrateTeam e (opts\<lparr>dryRun := False\<rparr>) tc w)) =
              membersDeleted (fst (migrateTeam e opts tc w)) \<and>
            membersMarkedObsolete (fst (migrateTeam e (opts\<lparr>dryRun := False\<rparr>) tc w)) =
              membersMarkedObsolete (fst (migrateTeam e opts tc w)) \<and>
            invitationsSent (fst (migrateTeam e (opts\<lparr>dryRun := False\<rparr>) tc w)) =
              invitationsSent (fst (migrateTeam e opts tc w)))"
proof -
  from migrateTeam_frame [of e opts tc w] assms obtain bs where
    log: "calls (snd (migrateTeam e opts tc w)) = calls w @ GetMembers (teamId tc) (apiKey tc) # bs"
    and bs: "\<forall>c\<in>set bs. \<not> isMemberCall c"
    by auto
  from bs have "filter isMemberCall bs = []"
    by (simp add: filter_empty_conv)
  then have quiet: "filter isMemberCall (calls (snd (migrateTeam e opts tc w))) =
      filter isMemberCall (calls w)"
    by (simp add: log)
  have dry: "dryRun opts \<or> allSucceed e"
    using assms by simp
  have live: "dryRun (opts\<lparr>dryRun := False\<rparr>) \<or> allSucceed e" if "allSucceed e"
    using that by simp
  from quiet migrateTeam_all_ok [OF dry, of tc w] migrateTeam_all_ok [OF live, of tc w]
  show ?thesis
    by simp
qed

theorem dry_run_simulates_full_pass_witness:
  "dryRun opts_dry \<and> allSucceed env_ok \<and> markObsolete opts_dry \<and> \<not> deleteMembers opts_dry \<and>
   fetchedMembers env_ok team1 world0 = [alice, bob] \<and>
   shouldIgnoreMember env_ok opts_dry alice \<and> \<not> shouldIgnoreMember env_ok opts_dry bob \<and>
   filter isMemberCall (calls (snd (migrateTeam env_ok opts_dry team1 world0))) = [] \<and>
   membersDeleted (fst (migrateTeam env_ok opts_dry team1 world0)) = 0 \<and>
   membersMarkedObsolete (fst (migrateTeam env_ok opts_dry team1 world0)) = 1 \<and>
   invitationsSent (fst (migrateTeam env_ok opts_dry team1 world0)) = 1 \<and>
   membersMarkedObsolete (fst (migrateTeam env_ok (opts_dry\<lparr>dryRun := False\<rparr>) team1 world0)) = 1 \<and>
   invitationsSent (fst (migrateTeam env_ok (opts_dry\<lparr>dryRun := False\<rparr>) team1 world0)) = 1"
proof -
  have h: "dryRun opts_dry" and m: "markObsolete opts_dry" and d: "\<not> deleteMembers opts_dry"
    by (simp_all add: opts_dry_def opts_obsolete_def)
  have ok: "allSucceed env_ok"
    by (simp add: allSucceed_def succeeds_def fromAxios_def is2xx_def env_ok_def)
  have f: "fetchedMembers env_ok team1 world0 = [alice, bob]"
    by (simp add: fetchedMembers_def getMembers_def env_ok_def)
  have a: "shouldIgnoreMember env_ok opts_dry alice" and b: "\<not> shouldIgnoreMember env_ok opts_dry bob"
    by (simp_all add: run_defs sample_defs)
  from dry_run_simulates_full_pass [OF h, of env_ok team1 world0] h m d ok f a b show ?thesis
    by (simp add: world0_def)
qed

text \<open>
  C8. The success flag of \<^verbatim>\<open>restoreFromBackup\<close>. After a successful load a
  dry run returns success = true and membersRestored = 0 and touches nothing, the members
  are not looked at. In live mode success is true exactly when membersRestored is above 0;
  so a backup file that holds an empty array gives membersRestored = 0, success = false
  and no error.
\<close>

theorem restore_success_flag:
  "(existsSync w p \<and> readFileSync e p w = Inr txt \<and> json_parse e txt = Inr ms \<and> dryRun opts \<longrightarrow>
      restoreFromBackup e opts p tc w =
        (\<lparr>success = True, membersRestored = 0, restoreErrors = []\<rparr>, w)) \<and>
   (\<not> dryRun opts \<longrightarrow>
      success (fst (restoreFromBackup e opts p tc w)) =
        (0 < membersRestored (fst (restoreFromBackup e opts p tc w)))) \<and>
   (existsSync w p \<and> readFileSync e p w = Inr txt \<and> json_parse e txt = Inr [] \<and> \<not> dryRun opts \<longrightarrow>
      restoreFromBackup e opts p tc w =
        (\<lparr>success = False, membersRestored = 0, restoreErrors = []\<rparr>, w))"
  using restoreFromBackup_live_flag [of opts e p tc w]
  by (auto simp: restoreFromBackup_loaded)

theorem restore_success_flag_witness:
  "existsSync (world_with_backup ''[s1;s2;]'') ''b.json'' \<and>
   readFileSync env_ok ''b.json'' (world_with_backup ''[s1;s2;]'') = Inr ''[s1;s2;]'' \<and>
   json_parse env_ok ''[s1;s2;]'' = Inr [alice, bob] \<and> dryRun opts_dry \<and>
   restoreFromBackup env_ok opts_dry ''b.json'' team1 (world_with_backup ''[s1;s2;]'') =
     (\<lparr>success = True, membersRestored = 0, restoreErrors = []\<rparr>, world_with_backup ''[s1;s2;]'') \<and>
   existsSync (world_with_backup ''[]'') ''b.json'' \<and>
   readFileSync env_ok ''b.json'' (world_with_backup ''[]'') = Inr ''[]'' \<and>
   json_parse env_ok ''[]'' = Inr [] \<and> \<not> dryRun opts_obsolete \<and>
   restoreFromBackup env_ok opts_obsolete ''b.json'' team1 (world_with_backup ''[]'') =
     (\<lparr>success = False, membersRestored = 0, restoreErrors = []\<rparr>, world_with_backup ''[]'') \<and>
   success (fst (restoreFromBackup env_ok opts_obsolete ''b.json'' team1 (world_with_backup ''[]''))) =
     (0 < membersRestored
            (fst (restoreFromBackup env_ok opts_obsolete ''b.json'' team1 (world_with_backup ''[]''))))"
proof -
  have l1: "existsSync (world_with_backup ''[s1;s2;]'') ''b.json''"
    and l2: "readFileSync env_ok ''b.json'' (world_with_backup ''[s1;s2;]'') = Inr ''[s1;s2;]''"
    and l3: "json_parse env_ok ''[s1;s2;]'' = Inr [alice, bob]"
    and l4: "dryRun opts_dry"
    by (simp_all add: existsSync_def readFileSync_def sample_defs)
  have e1: "existsSync (world_with_backup ''[]'') ''b.json''"
    and e2: "readFileSync env_ok ''b.json'' (world_with_backup ''[]'') = Inr ''[]''"
    and e3: "json_parse env_ok ''[]'' = Inr []"
    and e4: "\<not> dryRun opts_obsolete"
    by (simp_all add: existsSync_def readFileSync_def sample_defs)
  from restore_success_flag [of "world_with_backup ''[s1;s2;]''" "''b.json''" env_ok "''[s1;s2;]''"
      "[alice, bob]" opts_dry team1]
    restore_success_flag [of "world_with_backup ''[]''" "''b.json''" env_ok "''[]''"
      "[]" opts_obsolete team1]
    l1 l2 l3 l4 e1 e2 e3 e4
  show ?thesis by simp
qed

text \<open>
  C9. Round trip. A list of N members, N at least 1, none of which the ignore set of the
  restoring service matches, is saved by \<^verbatim>\<open>backupMembers\<close>; the file it produced
  is then restored in live mode, every invite call answering with a success status. The
  restore ends with membersRestored = N, success = true and no error. The JSON codec is
  assumed to give the list back (\<^verbatim>\<open>JSON.parse\<close> after
  \<^verbatim>\<open>JSON.stringify\<close>), and the file to be readable.
\<close>

theorem backup_restore_round_trip:
  assumes "ms \<noteq> []"
    and "backupMembers e opts tid ms w = (b, w1)" and "bk_path b = Some p"
    and "json_parse e (json_stringify e ms) = Inr ms"
    and "fs_fault e (calls w1) (ReadFile p) = None"
    and "\<not> dryRun opts'" and "\<forall>m\<in>set ms. \<not> shouldIgnoreMember e opts' m"
    and "\<forall>h request key. succeeds (http_post e h request key)"
  shows "bk_success b \<and>
         membersRestored (fst (restoreFromBackup e opts' p tc w1)) = length ms \<and>
         success (fst (restoreFromBackup e opts' p tc w1)) \<and>
         restoreErrors (fst (restoreFromBackup e opts' p tc w1)) = []"
proof -
  from backupMembers_written [OF assms(2,3)] have b: "bk_success b"
    and written: "files w1 p = Some (json_stringify e ms)"
    by simp_all
  from written have ex: "existsSync w1 p"
    by (simp add: existsSync_def)
  from written assms(5) have rd: "readFileSync e p w1 = Inr (json_stringify e ms)"
    by (simp add: readFileSync_def)
  have resp: "\<forall>h request key. responds (http_post e h request key)"
    using assms(8) succeeds_responds by blast
  have all: "filter (\<lambda>m. \<not> shouldIgnoreMember e opts' m) ms = ms"
    using assms(7) by (simp add: filter_id_conv)
  obtain r w2 where loop:
    "restoreFromBackup_loop e opts' tc ms \<lparr>success = False, membersRestored = 0, restoreErrors = []\<rparr> w1
       = (r, w2)"
    by (cases "restoreFromBackup_loop e opts' tc ms
                 \<lparr>success = False, membersRestored = 0, restoreErrors = []\<rparr> w1") auto
  from restoreFromBackup_loop_responds [OF assms(6) resp, of tc ms
      "\<lparr>success = False, membersRestored = 0, restoreErrors = []\<rparr>" w1] loop all
  have r: "membersRestored r = length ms" "restoreErrors r = []"
    by simp_all
  from restoreFromBackup_loaded [OF ex rd assms(4), of opts' tc] assms(6) loop
  have "fst (restoreFromBackup e opts' p tc w1) = r\<lparr>success := 0 < membersRestored r\<rparr>"
    by simp
  with r b assms(1) show ?thesis by simp
qed

theorem backup_restore_round_trip_witness:
  "[alice, bob] \<noteq> [] \<and>
   fst (backupMembers env_ok opts_dry ''t1'' [alice, bob] world0) =
     \<lparr>bk_success = True, bk_path = Some ''/w/b/team-t1-backup-2024-01-02T03-04-05-678Z.json'',
      bk_error = None\<rparr> \<and>
   json_parse env_ok (json_stringify env_ok [alice, bob]) = Inr [alice, bob] \<and>
   \<not> dryRun (MigrationService opts_obsolete) \<and>
   ignoredEmails (MigrationService opts_obsolete) = Some [] \<and>
   membersRestored
     (fst (restoreFromBackup env_ok (MigrationService opts_obsolete)
             ''/w/b/team-t1-backup-2024-01-02T03-04-05-678Z.json'' team1
             (snd (backupMembers env_ok opts_dry ''t1'' [alice, bob] world0)))) = 2 \<and>
   success
     (fst (restoreFromBackup env_ok (MigrationService opts_obsolete)
             ''/w/b/team-t1-backup-2024-01-02T03-04-05-678Z.json'' team1
             (snd (backupMembers env_ok opts_dry ''t1'' [alice, bob] world0))))"
proof -
  let ?p = "''/w/b/team-t1-backup-2024-01-02T03-04-05-678Z.json''"
  let ?b = "\<lparr>bk_success = True, bk_path = Some ?p, bk_error = None\<rparr>"
  let ?w1 = "snd (backupMembers env_ok opts_dry ''t1'' [alice, bob] world0)"
  have h1: "[alice, bob] \<noteq> []" by simp
  have b: "fst (backupMembers env_ok opts_dry ''t1'' [alice, bob] world0) = ?b"
    by (simp add: run_defs sample_defs)
  then have h2: "backupMembers env_ok opts_dry ''t1'' [alice, bob] world0 = (?b, ?w1)"
    by (cases "backupMembers env_ok opts_dry ''t1'' [alice, bob] world0") simp
  have h3: "bk_path ?b = Some ?p" by simp
  have h4: "json_parse env_ok (json_stringify env_ok [alice, bob]) = Inr [alice, bob]"
    by (simp add: sample_defs)
  have h5: "fs_fault env_ok (calls ?w1) (ReadFile ?p) = None"
    by (simp add: env_ok_def)
  have h6: "\<not> dryRun (MigrationService opts_obsolete)"
    and ig: "ignoredEmails (MigrationService opts_obsolete) = Some []"
    by (simp_all add: MigrationService_def defaultIgnoredEmails_def opts_obsolete_def)
  have h7: "\<forall>m\<in>set [alice, bob]. \<not> shouldIgnoreMember env_ok (MigrationService opts_obsolete) m"
    by (simp add: shouldIgnoreMember_def ig)
  have h8: "\<forall>h request key. succeeds (http_post env_ok h request key)"
    by (simp add: succeeds_def fromAxios_def is2xx_def env_ok_def)
  from backup_restore_round_trip [OF h1 h2 h3 h4 h5 h6 h7 h8, of team1] h1 b h4 h6 ig
  show ?thesis by simp
qed

text \<open>
  C10. In a live \<^verbatim>\<open>restoreFromBackup\<close> every member that is not ignored either
  adds one to membersRestored or adds one error, and the error comes from a raised fault
  only: when no invite call raises, membersRestored is the number of members that are not
  ignored and the list of errors is empty, whatever the statuses were. A member whose
  invitation is answered with a status outside 200 to 299 is counted as restored; the
  message of its failure is in the result that \<^verbatim>\<open>sendNewInvitation\<close> was given
  and that the loop drops.
\<close>

theorem restore_counts_without_status_check:
  assumes "\<not> dryRun opts"
    and "existsSync w p" and "readFileSync e p w = Inr txt" and "json_parse e txt = Inr ms"
  shows "membersRestored (fst (restoreFromBackup e opts p tc w)) +
           length (restoreErrors (fst (restoreFromBackup e opts p tc w))) =
           length (filter (\<lambda>m. \<not> shouldIgnoreMember e opts m) ms) \<and>
         ((\<forall>h request key. responds (http_post e h request key)) \<longrightarrow>
            membersRestored (fst (restoreFromBackup e opts p tc w)) =
              length (filter (\<lambda>m. \<not> shouldIgnoreMember e opts m) ms) \<and>
            restoreErrors (fst (restoreFromBackup e opts p tc w)) = []) \<and>
         (\<not> shouldIgnoreMember e opts m \<and>
          fromAxios (http_post e (calls w0) (inviteRequestOf m tc) (apiKey tc)) = Inr response \<and>
          \<not> is2xx (status response) \<longrightarrow>
            restoreFromBackup_loop e opts tc (m # rest) r w0 =
              restoreFromBackup_loop e opts tc rest (r\<lparr>membersRestored := membersRestored r + 1\<rparr>)
                (w0\<lparr>calls := calls w0 @ [InviteMember (inviteRequestOf m tc) (apiKey tc)]\<rparr>) \<and>
            errors (fst (snd (sendNewInvitation e opts m tc (initialResult (teamId tc)) w0))) =
              [''Failed to send invitation to '' @ email m @ '': '' @ statusText response])"
proof -
  let ?r0 = "\<lparr>success = False, membersRestored = 0, restoreErrors = []\<rparr>"
  obtain r1 w1 where loop: "restoreFromBackup_loop e opts tc ms ?r0 w = (r1, w1)"
    by (cases "restoreFromBackup_loop e opts tc ms ?r0 w") auto
  from restoreFromBackup_loaded [OF assms(2,3,4), of opts tc] assms(1) loop
  have run: "fst (restoreFromBackup e opts p tc w) = r1\<lparr>success := 0 < membersRestored r1\<rparr>"
    by simp
  have total: "membersRestored (fst (restoreFromBackup e opts p tc w)) +
           length (restoreErrors (fst (restoreFromBackup e opts p tc w))) =
           length (filter (\<lambda>m. \<not> shouldIgnoreMember e opts m) ms)"
    using restoreFromBackup_loop_total [of e opts tc ms ?r0 w] loop run by simp
  have quiet: "membersRestored (fst (restoreFromBackup e opts p tc w)) =
              length (filter (\<lambda>m. \<not> shouldIgnoreMember e opts m) ms) \<and>
            restoreErrors (fst (restoreFromBackup e opts p tc w)) = []"
    if "\<forall>h request key. responds (http_post e h request key)"
    using restoreFromBackup_loop_responds [OF assms(1) that, of tc ms ?r0 w] loop run by simp
  have step: "restoreFromBackup_loop e opts tc (m # rest) r w0 =
              restoreFromBackup_loop e opts tc rest (r\<lparr>membersRestored := membersRestored r + 1\<rparr>)
                (w0\<lparr>calls := calls w0 @ [InviteMember (inviteRequestOf m tc) (apiKey tc)]\<rparr>) \<and>
            errors (fst (snd (sendNewInvitation e opts m tc (initialResult (teamId tc)) w0))) =
              [''Failed to send invitation to '' @ email m @ '': '' @ statusText response]"
    if "\<not> shouldIgnoreMember e opts m"
      and "fromAxios (http_post e (calls w0) (inviteRequestOf m tc) (apiKey tc)) = Inr response"
      and "\<not> is2xx (status response)"
    using restoreFromBackup_loop_step [OF assms(1) that(1,2), of rest r] that(3)
      sendNewInvitation_live [OF assms(1) that(2), of "initialResult (teamId tc)"]
    by (simp add: initialResult_def)
  from total quiet step show ?thesis by blast
qed

theorem restore_counts_without_status_check_witness:
  "\<not> dryRun opts_obsolete \<and> existsSync (world_with_backup ''[s1;s2;]'') ''b.json'' \<and>
   readFileSync env_bad_request ''b.json'' (world_with_backup ''[s1;s2;]'') = Inr ''[s1;s2;]'' \<and>
   json_parse env_bad_request ''[s1;s2;]'' = Inr [alice, bob] \<and>
   fromAxios (http_post env_bad_request (calls (world_with_backup ''[s1;s2;]''))
                (inviteRequestOf alice team1) (apiKey team1)) =
     Inr \<lparr>data = ''{}'', status = 400, statusText = ''Bad Request''\<rparr> \<and>
   fst (restoreFromBackup env_bad_request opts_obsolete ''b.json'' team1
          (world_with_backup ''[s1;s2;]'')) =
     \<lparr>success = True, membersRestored = 2, restoreErrors = []\<rparr> \<and>
   errors (fst (snd (sendNewInvitation env_bad_request opts_obsolete alice team1
                       (initialResult (teamId team1)) (world_with_backup ''[s1;s2;]'')))) =
     [''Failed to send invitation to Alice@x.io: Bad Request'']"
proof -
  let ?w = "world_with_backup ''[s1;s2;]''"
  let ?response = "\<lparr>data = ''{}'', status = 400, statusText = ''Bad Request''\<rparr>"
  have h1: "\<not> dryRun opts_obsolete" and h2: "existsSync ?w ''b.json''"
    and h3: "readFileSync env_bad_request ''b.json'' ?w = Inr ''[s1;s2;]''"
    and h4: "json_parse env_bad_request ''[s1;s2;]'' = Inr [alice, bob]"
    by (simp_all add: existsSync_def readFileSync_def sample_defs)
  have h5: "\<forall>h request key. responds (http_post env_bad_request h request key)"
    by (simp add: responds_def fromAxios_def env_bad_request_def env_ok_def)
  have n: "\<not> shouldIgnoreMember env_bad_request opts_obsolete alice" "\<not> shouldIgnoreMember env_bad_request opts_obsolete bob"
    by (simp_all add: shouldIgnoreMember_def opts_obsolete_def)
  have a: "fromAxios (http_post env_bad_request (calls ?w) (inviteRequestOf alice team1) (apiKey team1)) =
     Inr ?response"
    by (simp add: fromAxios_def env_bad_request_def env_ok_def)
  have s: "\<not> is2xx (status ?response)"
    by (simp add: is2xx_def)
  have flag: "success (fst (restoreFromBackup env_bad_request opts_obsolete ''b.json'' team1 ?w)) =
      (0 < membersRestored (fst (restoreFromBackup env_bad_request opts_obsolete ''b.json'' team1 ?w)))"
    using h1 by (rule restoreFromBackup_live_flag)
  from restore_counts_without_status_check [OF h1 h2 h3 h4, of team1 alice ?w ?response "[bob]"
      "\<lparr>success = False, membersRestored = 0, restoreErrors = []\<rparr>"] h1 h2 h3 h4 h5 n a s flag
  show ?thesis
    by (simp add: alice_def)
qed

text \<open>
  C3. The claim wants one error in the result for each member whose invitation fails,
  by a fault or by a failure status. The code records the fault only: with one member in
  the backup and status 400 for its invitation the restore returns success = true,
  membersRestored = 1 and no error, while a refused connection is recorded.
\<close>

theorem restore_loses_failed_invitation:
  "\<not> dryRun opts_obsolete \<and> \<not> shouldIgnoreMember env_bad_request opts_obsolete alice \<and>
   json_parse env_bad_request ''[s1;]'' = Inr [alice] \<and>
   fst (inviteMember env_bad_request (inviteRequestOf alice team1) (apiKey team1)
          (world_with_backup ''[s1;]'')) =
     Inr \<lparr>data = ''{}'', status = 400, statusText = ''Bad Request''\<rparr> \<and>
   fst (restoreFromBackup env_bad_request opts_obsolete ''b.json'' team1 (world_with_backup ''[s1;]'')) =
     \<lparr>success = True, membersRestored = 1, restoreErrors = []\<rparr> \<and>
   fst (restoreFromBackup env_offline opts_obsolete ''b.json'' team1 (world_with_backup ''[s1;]'')) =
     \<lparr>success = False, membersRestored = 0,
      restoreErrors = [''Error restoring member Alice@x.io: connect ECONNREFUSED'']\<rparr>"
  by (simp add: restoreFromBackup_def run_defs sample_defs)

end
